theory Spec2Isabelle
  imports Complex_Main
begin

section \<open>JavaScript numbers and request values\<close>

text \<open>
  A JavaScript number is a finite value, one of the two infinities, or NaN. Finite
  arithmetic is idealised: a finite double is read as the rational it denotes and
  \<open>+\<close>, \<open>-\<close>, \<open>*\<close>, \<open>/\<close> on finite values are exact (no rounding to 53 bits, no
  overflow to an infinity, no negative zero). The special values follow IEEE 754 as
  JavaScript has them: NaN is absorbing, \<open>Infinity - Infinity\<close> and \<open>0 * Infinity\<close> are
  NaN, every comparison with NaN is false.
\<close>

datatype jsnum = Fin rat | PInf | NInf | NaN

fun jneg :: "jsnum \<Rightarrow> jsnum" where
  "jneg (Fin a) = Fin (- a)"
| "jneg PInf = NInf"
| "jneg NInf = PInf"
| "jneg NaN = NaN"

fun jadd :: "jsnum \<Rightarrow> jsnum \<Rightarrow> jsnum" where
  "jadd (Fin a) (Fin b) = Fin (a + b)"
| "jadd NaN _ = NaN"
| "jadd _ NaN = NaN"
| "jadd PInf NInf = NaN"
| "jadd NInf PInf = NaN"
| "jadd PInf _ = PInf"
| "jadd _ PInf = PInf"
| "jadd NInf _ = NInf"
| "jadd _ NInf = NInf"

definition jsub :: "jsnum \<Rightarrow> jsnum \<Rightarrow> jsnum" where
  "jsub a b = jadd a (jneg b)"

fun jmul :: "jsnum \<Rightarrow> jsnum \<Rightarrow> jsnum" where
  "jmul (Fin a) (Fin b) = Fin (a * b)"
| "jmul NaN _ = NaN"
| "jmul _ NaN = NaN"
| "jmul (Fin a) PInf = (if a = 0 then NaN else if 0 < a then PInf else NInf)"
| "jmul (Fin a) NInf = (if a = 0 then NaN else if 0 < a then NInf else PInf)"
| "jmul PInf (Fin b) = (if b = 0 then NaN else if 0 < b then PInf else NInf)"
| "jmul NInf (Fin b) = (if b = 0 then NaN else if 0 < b then NInf else PInf)"
| "jmul PInf PInf = PInf"
| "jmul PInf NInf = NInf"
| "jmul NInf PInf = NInf"
| "jmul NInf NInf = PInf"

text \<open>Division by a positive literal; the source divides by \<open>100\<close> and by \<open>2\<close> only.\<close>

fun jdivc :: "jsnum \<Rightarrow> rat \<Rightarrow> jsnum" where
  "jdivc (Fin a) c = Fin (a / c)"
| "jdivc x c = x"

text \<open>\<open>Math.round\<close>: the nearest integer, a half rounded towards plus infinity.\<close>

fun mathRound :: "jsnum \<Rightarrow> jsnum" where
  "mathRound (Fin a) = Fin (of_int \<lfloor>a + 1 / 2\<rfloor>)"
| "mathRound x = x"

text \<open>The idiom \<open>Math.round(x * 100) / 100\<close>, which the source writes out at every use.\<close>

definition round2 :: "jsnum \<Rightarrow> jsnum" where
  "round2 x = jdivc (mathRound (jmul x (Fin 100))) 100"

fun isNaN :: "jsnum \<Rightarrow> bool" where
  "isNaN NaN = True"
| "isNaN _ = False"

fun isFinite :: "jsnum \<Rightarrow> bool" where
  "isFinite (Fin _) = True"
| "isFinite _ = False"

fun jlt :: "jsnum \<Rightarrow> jsnum \<Rightarrow> bool" where
  "jlt (Fin a) (Fin b) = (a < b)"
| "jlt NaN _ = False"
| "jlt _ NaN = False"
| "jlt PInf _ = False"
| "jlt _ NInf = False"
| "jlt _ PInf = True"
| "jlt NInf _ = True"

definition jgt :: "jsnum \<Rightarrow> jsnum \<Rightarrow> bool" where
  "jgt a b = jlt b a"

definition jle :: "jsnum \<Rightarrow> jsnum \<Rightarrow> bool" where
  "jle a b = (jlt a b \<or> (a = b \<and> \<not> isNaN a))"

definition jge :: "jsnum \<Rightarrow> jsnum \<Rightarrow> bool" where
  "jge a b = jle b a"

text \<open>\<open>x || d\<close> on a number: \<open>0\<close> and NaN are falsy.\<close>

definition numOr :: "jsnum \<Rightarrow> jsnum \<Rightarrow> jsnum" where
  "numOr x d = (if x = Fin 0 \<or> isNaN x then d else x)"

text \<open>
  A value of a request body, as far as the handlers look at it: they test it against
  \<open>undefined\<close>, \<open>null\<close> and \<open>''\<close>, test its truthiness and apply \<open>Number\<close> to it. A
  non-empty string and an object are therefore kept as the number \<open>Number\<close> gives for
  them (NaN for text that is no numeral).
\<close>

datatype jsval = Undefined | Null | EmptyStr | Str jsnum | Num jsnum | Bool bool | Obj jsnum

fun toNumber :: "jsval \<Rightarrow> jsnum" where
  "toNumber Undefined = NaN"
| "toNumber Null = Fin 0"
| "toNumber EmptyStr = Fin 0"
| "toNumber (Str n) = n"
| "toNumber (Num n) = n"
| "toNumber (Bool b) = (if b then Fin 1 else Fin 0)"
| "toNumber (Obj n) = n"

fun truthy :: "jsval \<Rightarrow> bool" where
  "truthy Undefined = False"
| "truthy Null = False"
| "truthy EmptyStr = False"
| "truthy (Str _) = True"
| "truthy (Num n) = (n \<noteq> Fin 0 \<and> \<not> isNaN n)"
| "truthy (Bool b) = b"
| "truthy (Obj _) = True"

definition jsor :: "jsval \<Rightarrow> jsval \<Rightarrow> jsval" where
  "jsor a b = (if truthy a then a else b)"

text \<open>A destructuring default \<open>{ x = d } = req.body\<close> applies to \<open>undefined\<close> only.\<close>

definition withDefault :: "jsval \<Rightarrow> jsval \<Rightarrow> jsval" where
  "withDefault v d = (if v = Undefined then d else v)"

definition safeNumber :: "jsval \<Rightarrow> jsnum \<Rightarrow> jsnum" where
  "safeNumber v defaultValue =
     (if v = Null \<or> v = Undefined \<or> v = EmptyStr then defaultValue
      else let num = toNumber v in if isNaN num then defaultValue else num)"

section \<open>Line items\<close>

record rawLineItem =
  raw_quantity :: jsval
  raw_unitPrice :: jsval
  raw_taxRate :: jsval
  raw_gstRate :: jsval

record lineItem =
  quantity :: jsnum
  unitPrice :: jsnum
  itemTaxRate :: jsnum
  lineTotal :: jsnum
  taxAmount :: jsnum
  totalAmount :: jsnum

text \<open>
  The callback of \<open>lineItems.map\<close> in \<open>POST /invoices\<close>. The name, description, unit
  and HSN code of a line are text that no amount depends on; they are left out.
\<close>

definition processLineItem :: "jsval \<Rightarrow> rawLineItem \<Rightarrow> lineItem" where
  "processLineItem taxRate item =
     (let q = safeNumber (raw_quantity item) (Fin 1);
          p = safeNumber (raw_unitPrice item) (Fin 0);
          r = safeNumber (jsor (jsor (raw_taxRate item) (raw_gstRate item)) taxRate) (Fin 18);
          lt0 = jmul q p;
          lt = (if isNaN lt0 then Fin 0 else lt0);
          ta0 = jdivc (jmul lt r) 100;
          ta = (if isNaN ta0 then Fin 0 else ta0);
          tot0 = jadd lt ta;
          tot = (if isNaN tot0 then lt else tot0)
      in \<lparr> quantity = q, unitPrice = p, itemTaxRate = r,
           lineTotal = round2 lt, taxAmount = round2 ta, totalAmount = round2 tot \<rparr>)"

text \<open>The callback of \<open>updateData.lineItems.map\<close> in \<open>PUT /invoices/:id\<close>.\<close>

definition updateLineItem :: "jsnum \<Rightarrow> rawLineItem \<Rightarrow> lineItem" where
  "updateLineItem bodyTaxRate item =
     (let q = numOr (toNumber (raw_quantity item)) (Fin 1);
          p = numOr (toNumber (raw_unitPrice item)) (Fin 0);
          r = numOr (numOr (toNumber (jsor (raw_taxRate item) (raw_gstRate item))) bodyTaxRate)
                (Fin 18);
          lt = jmul q p;
          ta = jdivc (jmul lt r) 100;
          tot = jadd lt ta
      in \<lparr> quantity = q, unitPrice = p, itemTaxRate = r,
           lineTotal = round2 lt, taxAmount = round2 ta, totalAmount = round2 tot \<rparr>)"

section \<open>The invoice document and its pre-save hook\<close>

text \<open>
  The fields of \<open>invoiceSchema\<close> that the amounts, the numbering and the status depend
  on. The address, business, bank, authorization and footer snapshots are text copied
  through unchanged and are left out. \<open>dueDate\<close> is \<open>None\<close> for a missing or invalid
  date.
\<close>

record invoice =
  inv_id :: nat
  ownerId :: nat
  customerId :: nat
  invoiceNumber :: string
  dueDate :: "nat option"
  status :: string
  paymentStatus :: string
  customerName :: string
  tags :: "string list"
  invoiceType :: string
  igst :: jsnum
  cgst :: jsnum
  sgst :: jsnum
  taxRate :: jsnum
  taxType :: string
  lineItems :: "lineItem list"
  subtotal :: jsnum
  totalTaxAmount :: jsnum
  discountAmount :: jsnum
  roundingAdjustment :: jsnum
  transportCharges :: jsnum
  otherCharges :: jsnum
  finalAmount :: jsnum
  paidAmount :: jsnum
  balanceAmount :: jsnum

text \<open>\<open>invoiceSchema.pre('save')\<close>, in the order of its statements.\<close>

definition hookTotals :: "invoice \<Rightarrow> invoice" where
  "hookTotals this =
     (let s = foldl (\<lambda>sum item. jadd sum (numOr (lineTotal item) (Fin 0))) (Fin 0) (lineItems this);
          t = foldl (\<lambda>sum item. jadd sum (numOr (taxAmount item) (Fin 0))) (Fin 0) (lineItems this);
          f = jadd (jadd (jadd (jsub (jadd s t) (numOr (discountAmount this) (Fin 0)))
                (numOr (transportCharges this) (Fin 0)))
                (numOr (otherCharges this) (Fin 0)))
                (numOr (roundingAdjustment this) (Fin 0));
          b = jsub f (numOr (paidAmount this) (Fin 0))
      in this\<lparr> subtotal := s, totalTaxAmount := t, finalAmount := f, balanceAmount := b \<rparr>)"

definition hookTaxBreakdown :: "invoice \<Rightarrow> invoice" where
  "hookTaxBreakdown this =
     (if jgt (totalTaxAmount this) (Fin 0)
         \<and> igst this = Fin 0 \<and> cgst this = Fin 0 \<and> sgst this = Fin 0
      then (if taxType this = ''CGST_SGST''
            then this\<lparr> cgst := round2 (jdivc (totalTaxAmount this) 2),
                       sgst := round2 (jdivc (totalTaxAmount this) 2),
                       igst := Fin 0 \<rparr>
            else this\<lparr> igst := round2 (totalTaxAmount this), cgst := Fin 0, sgst := Fin 0 \<rparr>)
      else this)"

definition hookPaymentStatus :: "invoice \<Rightarrow> invoice" where
  "hookPaymentStatus this =
     (if jle (balanceAmount this) (Fin 0)
      then this\<lparr> paymentStatus := ''paid'', status := ''paid'' \<rparr>
      else if jgt (paidAmount this) (Fin 0)
      then this\<lparr> paymentStatus := ''partial'' \<rparr>
      else this\<lparr> paymentStatus := ''pending'' \<rparr>)"

definition preSave :: "invoice \<Rightarrow> invoice" where
  "preSave this = hookPaymentStatus (hookTaxBreakdown (hookTotals this))"

text \<open>
  The validators of \<open>lineItemSchema\<close> and \<open>invoiceSchema\<close> on the modelled fields:
  \<open>required\<close>, \<open>enum\<close>, \<open>min\<close> and \<open>max\<close>. The persistence layer runs them when a
  document is saved, before the pre-save hook above.
\<close>

definition validLineItem :: "lineItem \<Rightarrow> bool" where
  "validLineItem item =
     (jge (quantity item) (Fin 0) \<and> jge (unitPrice item) (Fin 0)
      \<and> jge (itemTaxRate item) (Fin 0) \<and> jle (itemTaxRate item) (Fin 100))"

definition validateInvoice :: "invoice \<Rightarrow> bool" where
  "validateInvoice doc =
     (invoiceNumber doc \<noteq> [] \<and> dueDate doc \<noteq> None \<and> customerName doc \<noteq> []
      \<and> status doc \<in> set [''pending'', ''paid'', ''cancelled'', ''draft'', ''completed'']
      \<and> paymentStatus doc \<in> set [''pending'', ''paid'', ''overdue'', ''cancelled'']
      \<and> invoiceType doc \<in> set [''SALES'', ''PURCHASE'', ''QUOTATION'']
      \<and> taxType doc \<in> set [''IGST'', ''CGST_SGST'']
      \<and> list_all validLineItem (lineItems doc))"

datatype error =
    CustomerIdRequired
  | LineItemsRequired
  | CustomerNotFound
  | NumberGenerationFailed
  | InvalidCalculation string
  | CreateFailed
  | UpdateFailed
  | InvoiceNotFound
  | InvalidStatus

text \<open>\<open>invoice.save()\<close> of a new document: validate, run the hook, insert.\<close>

definition saveNew :: "invoice list \<Rightarrow> invoice \<Rightarrow> (error + invoice) \<times> invoice list" where
  "saveNew store doc =
     (if validateInvoice doc
      then (let doc' = preSave doc in (Inr doc', store @ [doc']))
      else (Inl CreateFailed, store))"

section \<open>Invoice numbers\<close>

text \<open>Decimal printing of a natural number, as \<open>toString\<close> and a template literal do.\<close>

definition digitChar :: "nat \<Rightarrow> char" where
  "digitChar d =
     (if d = 0 then CHR ''0'' else if d = 1 then CHR ''1'' else if d = 2 then CHR ''2''
      else if d = 3 then CHR ''3'' else if d = 4 then CHR ''4'' else if d = 5 then CHR ''5''
      else if d = 6 then CHR ''6'' else if d = 7 then CHR ''7'' else if d = 8 then CHR ''8''
      else CHR ''9'')"

fun showNat :: "nat \<Rightarrow> string" where
  "showNat n =
     (if n < 10 then [digitChar n]
      else showNat (n div 10) @ [digitChar (n mod 10)])"

declare showNat.simps [simp del]

definition sliceLast :: "nat \<Rightarrow> string \<Rightarrow> string" where
  "sliceLast k s = drop (length s - k) s"

function padStart :: "nat \<Rightarrow> char \<Rightarrow> string \<Rightarrow> string" where
  "padStart k c s = (if length s < k then padStart k c (c # s) else s)"
  by pat_completeness auto
termination
  by (relation "measure (\<lambda>(k, c, s). k - length s)") auto

declare padStart.simps [simp del]

text \<open>
  \<open>timestamp.toString().slice(-6) + random.toString().padStart(3, '0')\<close>, for the
  clock reading \<open>timestamp\<close> and the value \<open>random\<close> of
  \<open>Math.floor(Math.random() * 1000)\<close>.
\<close>

definition sequenceOf :: "nat \<Rightarrow> nat \<Rightarrow> string" where
  "sequenceOf timestamp random =
     sliceLast 6 (showNat timestamp) @ padStart 3 (CHR ''0'') (showNat random)"

definition maxAttempts :: nat where
  "maxAttempts = 100"

text \<open>The candidate number built in the iteration that starts with \<open>attempts = k\<close>.\<close>

definition candidate :: "string \<Rightarrow> (nat \<Rightarrow> nat) \<Rightarrow> (nat \<Rightarrow> nat) \<Rightarrow> nat \<Rightarrow> string" where
  "candidate customPrefix now random k = customPrefix @ ''-'' @ sequenceOf (now k) (random k)"

text \<open>
  The \<open>while (attempts < maxAttempts)\<close> loop of \<open>POST /invoices\<close>. \<open>now k\<close> and
  \<open>random k\<close> are the clock and the random value read in the iteration that starts
  with \<open>attempts = k\<close>. The result is the error response sent from inside the loop, or
  the variable \<open>invoiceNumber\<close> after the loop (\<open>None\<close> while it is unassigned).
\<close>

function generateInvoiceNumber ::
  "invoice list \<Rightarrow> string \<Rightarrow> (nat \<Rightarrow> nat) \<Rightarrow> (nat \<Rightarrow> nat) \<Rightarrow> nat \<Rightarrow> error + string option" where
  "generateInvoiceNumber store customPrefix now random attempts =
     (if attempts < maxAttempts then
        (let number = candidate customPrefix now random attempts
         in if find (\<lambda>d. invoiceNumber d = number) store = None
            then Inr (Some number)
            else if maxAttempts \<le> Suc attempts then Inl NumberGenerationFailed
            else generateInvoiceNumber store customPrefix now random (Suc attempts))
      else Inr None)"
  by pat_completeness auto
termination
  by (relation "measure (\<lambda>(store, customPrefix, now, random, attempts). maxAttempts - attempts)")
    auto

declare generateInvoiceNumber.simps [simp del]

text \<open>ASCII upper-casing, which is what \<open>toUpperCase\<close> does on the type names.\<close>

definition upperChar :: "char \<Rightarrow> char" where
  "upperChar c =
     (case map_of (zip ''abcdefghijklmnopqrstuvwxyz'' ''ABCDEFGHIJKLMNOPQRSTUVWXYZ'') c of
        Some u \<Rightarrow> u
      | None \<Rightarrow> c)"

definition toUpperCase :: "string \<Rightarrow> string" where
  "toUpperCase s = map upperChar s"

text \<open>\<open>s || d\<close> on text: the empty (or absent) string is falsy.\<close>

definition strOr :: "string \<Rightarrow> string \<Rightarrow> string" where
  "strOr s d = (if s = [] then d else s)"

record businessSettings =
  salesInvoicePrefix :: string
  purchaseInvoicePrefix :: string
  quotationInvoicePrefix :: string

definition getInvoicePrefixByType :: "businessSettings \<Rightarrow> nat \<Rightarrow> string \<Rightarrow> string" where
  "getInvoicePrefixByType this currentYear typeName =
     (let t = toUpperCase typeName
      in if t = ''SALES'' \<or> t = ''SALE''
         then strOr (salesInvoicePrefix this) (''SALE-'' @ showNat currentYear)
         else if t = ''PURCHASE'' \<or> t = ''PURCHASES''
         then strOr (purchaseInvoicePrefix this) (''PUR-'' @ showNat currentYear)
         else if t = ''QUOTATION'' \<or> t = ''QUOTE''
         then strOr (quotationInvoicePrefix this) (''QUOT-'' @ showNat currentYear)
         else strOr (salesInvoicePrefix this) (''SALE-'' @ showNat currentYear))"

text \<open>The prefix the create handler uses; without a settings document, its own table.\<close>

definition customPrefixOf :: "businessSettings option \<Rightarrow> nat \<Rightarrow> string \<Rightarrow> string" where
  "customPrefixOf settings currentYear finalInvoiceType =
     (case settings of
        Some bs \<Rightarrow> getInvoicePrefixByType bs currentYear finalInvoiceType
      | None \<Rightarrow>
          (if finalInvoiceType = ''SALES'' then ''SALE-'' @ showNat currentYear
           else if finalInvoiceType = ''PURCHASE'' then ''PUR-'' @ showNat currentYear
           else if finalInvoiceType = ''QUOTATION'' then ''QUOT-'' @ showNat currentYear
           else ''INV-'' @ showNat currentYear))"

text \<open>\<open>finalInvoiceType\<close> and \<open>finalTags\<close> of the create handler.\<close>

definition resolveType :: "string option \<Rightarrow> string list \<Rightarrow> string \<times> string list" where
  "resolveType typeName tagList =
     (case (case typeName of None \<Rightarrow> None | Some t \<Rightarrow> if t = [] then None else Some t) of
        Some t \<Rightarrow> (toUpperCase t, if tagList \<noteq> [] then tagList else [toUpperCase t])
      | None \<Rightarrow>
          (if tagList \<noteq> [] then
             (if ''SALES'' \<in> set tagList \<or> ''SALE'' \<in> set tagList then ''SALES''
              else if ''PURCHASE'' \<in> set tagList \<or> ''BUY'' \<in> set tagList then ''PURCHASE''
              else if ''QUOTATION'' \<in> set tagList \<or> ''QUOTE'' \<in> set tagList then ''QUOTATION''
              else ''SALES'', tagList)
           else (''SALES'', [''SALES''])))"

section \<open>Creating an invoice\<close>

record customer =
  cust_id :: nat
  cust_ownerId :: nat
  cust_name :: string

text \<open>
  What a request reads from outside the invoice store: the customer collection, the
  owner's settings document (if any), the current year, the clock and random readings
  of the numbering loop, and the identifier the store gives the new document.
\<close>

record env =
  env_customers :: "customer list"
  env_settings :: "businessSettings option"
  env_currentYear :: nat
  env_now :: "nat \<Rightarrow> nat"
  env_random :: "nat \<Rightarrow> nat"
  env_newId :: nat

text \<open>
  The body of \<open>POST /invoices\<close> with the authenticated owner. An absent key is
  \<open>Undefined\<close>, \<open>None\<close> or the empty text.
\<close>

record createRequest =
  req_ownerId :: nat
  req_customerId :: "nat option"
  req_customerName :: string
  req_lineItems :: "rawLineItem list option"
  req_dueDate :: "nat option"
  req_discountAmount :: jsval
  req_transportCharges :: jsval
  req_otherCharges :: jsval
  req_roundingAdjustment :: jsval
  req_taxType :: "string option"
  req_taxRate :: jsval
  req_tags :: "string list"
  req_invoiceType :: "string option"

text \<open>
  \<open>customPrefix\<close> of a request, and the candidate number of its \<open>k\<close>-th attempt.
\<close>

definition requestPrefix :: "env \<Rightarrow> createRequest \<Rightarrow> string" where
  "requestPrefix e req =
     customPrefixOf (env_settings e) (env_currentYear e)
       (fst (resolveType (req_invoiceType req) (req_tags req)))"


text \<open>
  The document \<open>new Invoice({...})\<close> of the create handler, from the processing of the
  line items to the tax breakdown.
\<close>

definition buildInvoice ::
  "env \<Rightarrow> createRequest \<Rightarrow> customer \<Rightarrow> string \<Rightarrow> rawLineItem list \<Rightarrow> invoice" where
  "buildInvoice e req cust number items =
     (let rate = withDefault (req_taxRate req) (Num (Fin 18));
          tt = (case req_taxType req of None \<Rightarrow> ''IGST'' | Some t \<Rightarrow> t);
          processedLineItems = map (processLineItem rate) items;
          s0 = foldl (\<lambda>sum item. jadd sum (safeNumber (Num (lineTotal item)) (Fin 0)))
                 (Fin 0) processedLineItems;
          t0 = foldl (\<lambda>sum item. jadd sum (safeNumber (Num (taxAmount item)) (Fin 0)))
                 (Fin 0) processedLineItems;
          safeDiscountAmount = safeNumber (withDefault (req_discountAmount req) (Num (Fin 0))) (Fin 0);
          safeTransportCharges = safeNumber (withDefault (req_transportCharges req) (Num (Fin 0))) (Fin 0);
          safeOtherCharges = safeNumber (withDefault (req_otherCharges req) (Num (Fin 0))) (Fin 0);
          safeRoundingAdjustment = safeNumber (withDefault (req_roundingAdjustment req) (Num (Fin 0))) (Fin 0);
          f0 = jadd (jadd (jadd (jsub (jadd s0 t0) safeDiscountAmount) safeTransportCharges)
                 safeOtherCharges) safeRoundingAdjustment;
          f1 = (if isNaN f0 then jadd s0 t0 else f0);
          b0 = jsub f1 (Fin 0);
          b1 = (if isNaN b0 then f1 else b0);
          s = round2 s0;
          t = round2 t0;
          f = round2 f1;
          b = round2 b1;
          actualTaxRate = safeNumber rate (Fin 18);
          typeAndTags = resolveType (req_invoiceType req) (req_tags req)
      in \<lparr> inv_id = env_newId e,
           ownerId = req_ownerId req,
           customerId = cust_id cust,
           invoiceNumber = number,
           dueDate = req_dueDate req,
           status = ''pending'',
           paymentStatus = ''pending'',
           customerName = strOr (req_customerName req) (strOr (cust_name cust) []),
           tags = snd typeAndTags,
           invoiceType = fst typeAndTags,
           igst = (if tt = ''CGST_SGST'' then Fin 0 else round2 t),
           cgst = (if tt = ''CGST_SGST'' then round2 (jdivc t 2) else Fin 0),
           sgst = (if tt = ''CGST_SGST'' then round2 (jdivc t 2) else Fin 0),
           taxRate = actualTaxRate,
           taxType = tt,
           lineItems = processedLineItems,
           subtotal = s,
           totalTaxAmount = t,
           discountAmount = safeDiscountAmount,
           roundingAdjustment = safeRoundingAdjustment,
           transportCharges = safeTransportCharges,
           otherCharges = safeOtherCharges,
           finalAmount = f,
           paidAmount = Fin 0,
           balanceAmount = b \<rparr>)"

text \<open>The loop over \<open>criticalFields\<close>: the first field that is NaN, in the source's order.\<close>

definition criticalNaN :: "invoice \<Rightarrow> string option" where
  "criticalNaN doc =
     (if isNaN (finalAmount doc) then Some ''finalAmount''
      else if isNaN (balanceAmount doc) then Some ''balanceAmount''
      else if isNaN (subtotal doc) then Some ''subtotal''
      else if isNaN (totalTaxAmount doc) then Some ''totalTaxAmount''
      else None)"

text \<open>
  \<open>POST /invoices\<close>: the response (an error, or the saved document) and the invoice
  store afterwards.
\<close>

definition createInvoice ::
  "env \<Rightarrow> invoice list \<Rightarrow> createRequest \<Rightarrow> (error + invoice) \<times> invoice list" where
  "createInvoice e store req =
     (case req_customerId req of
        None \<Rightarrow> (Inl CustomerIdRequired, store)
      | Some cid \<Rightarrow>
     (case req_lineItems req of
        None \<Rightarrow> (Inl LineItemsRequired, store)
      | Some items \<Rightarrow>
     (if items = [] then (Inl LineItemsRequired, store)
      else
     (case find (\<lambda>c. cust_id c = cid \<and> cust_ownerId c = req_ownerId req) (env_customers e) of
        None \<Rightarrow> (Inl CustomerNotFound, store)
      | Some cust \<Rightarrow>
     (case generateInvoiceNumber store (requestPrefix e req) (env_now e) (env_random e) 0 of
        Inl err \<Rightarrow> (Inl err, store)
      | Inr number \<Rightarrow>
          (let doc = buildInvoice e req cust (case number of None \<Rightarrow> [] | Some n \<Rightarrow> n) items
           in case criticalNaN doc of
                Some field \<Rightarrow> (Inl (InvalidCalculation field), store)
              | None \<Rightarrow> saveNew store doc))))))"

section \<open>Updating an invoice\<close>

text \<open>
  The body of \<open>PUT /invoices/:id\<close>: the keys of the modelled fields of the schema
  that a body can carry. \<open>None\<close> is an absent key. The top-level numeric keys are
  modelled for bodies that give them as JSON numbers (on text, the handler's \<open>+\<close>
  would concatenate); the keys of a line item are arbitrary values. The keys \<open>tags\<close>
  and \<open>invoiceType\<close>, which the handler aligns before this block, and the snapshot
  texts are left out.
\<close>

record updateBody =
  upd_lineItems :: "rawLineItem list option"
  upd_discountAmount :: "jsnum option"
  upd_transportCharges :: "jsnum option"
  upd_otherCharges :: "jsnum option"
  upd_roundingAdjustment :: "jsnum option"
  upd_taxType :: "string option"
  upd_taxRate :: "jsnum option"
  upd_igst :: "jsnum option"
  upd_cgst :: "jsnum option"
  upd_sgst :: "jsnum option"
  upd_paidAmount :: "jsnum option"
  upd_invoiceNumber :: "string option"
  upd_status :: "string option"
  upd_paymentStatus :: "string option"
  upd_subtotal :: "jsnum option"
  upd_totalTaxAmount :: "jsnum option"
  upd_finalAmount :: "jsnum option"
  upd_balanceAmount :: "jsnum option"

text \<open>\<open>updateData\<close> as the handler passes it to \<open>findOneAndUpdate\<close>: the keys to set.\<close>

record updateSet =
  set_lineItems :: "lineItem list option"
  set_subtotal :: "jsnum option"
  set_totalTaxAmount :: "jsnum option"
  set_finalAmount :: "jsnum option"
  set_balanceAmount :: "jsnum option"
  set_igst :: "jsnum option"
  set_cgst :: "jsnum option"
  set_sgst :: "jsnum option"
  set_taxType :: "string option"
  set_taxRate :: "jsnum option"
  set_discountAmount :: "jsnum option"
  set_transportCharges :: "jsnum option"
  set_otherCharges :: "jsnum option"
  set_roundingAdjustment :: "jsnum option"
  set_paidAmount :: "jsnum option"
  set_invoiceNumber :: "string option"
  set_status :: "string option"
  set_paymentStatus :: "string option"

text \<open>\<open>x || d\<close> and \<open>Number(x)\<close> on a key that may be absent.\<close>

definition optOr :: "jsnum option \<Rightarrow> jsnum \<Rightarrow> jsnum" where
  "optOr x d = (case x of None \<Rightarrow> d | Some n \<Rightarrow> numOr n d)"

definition optNumber :: "jsnum option \<Rightarrow> jsnum" where
  "optNumber x = (case x of None \<Rightarrow> NaN | Some n \<Rightarrow> n)"

text \<open>
  The block of the handler that recomputes the amounts from the mapped line items
  \<open>raw\<close>, as the keys it leaves in \<open>updateData\<close>.
\<close>

definition recalculate :: "updateBody \<Rightarrow> rawLineItem list \<Rightarrow> updateSet" where
  "recalculate updateData raw =
     (let items = map (updateLineItem (optNumber (upd_taxRate updateData))) raw;
          s = foldl (\<lambda>sum item. jadd sum (lineTotal item)) (Fin 0) items;
          t = foldl (\<lambda>sum item. jadd sum (taxAmount item)) (Fin 0) items;
          f = jadd (jadd (jsub (jadd s t) (optOr (upd_discountAmount updateData) (Fin 0)))
                (optOr (upd_transportCharges updateData) (Fin 0)))
                (optOr (upd_otherCharges updateData) (Fin 0));
          actualTaxRate = (case items of
                             [] \<Rightarrow> numOr (optNumber (upd_taxRate updateData)) (Fin 18)
                           | first # _ \<Rightarrow> itemTaxRate first);
          tt = strOr (case upd_taxType updateData of None \<Rightarrow> [] | Some x \<Rightarrow> x) ''IGST''
      in \<lparr> set_lineItems = Some items,
           set_subtotal = Some (round2 s),
           set_totalTaxAmount = Some (round2 t),
           set_finalAmount = Some (round2 f),
           set_balanceAmount = Some (round2 f),
           set_igst = Some (if tt = ''CGST_SGST'' then Fin 0 else round2 t),
           set_cgst = Some (if tt = ''CGST_SGST'' then round2 (jdivc t 2) else Fin 0),
           set_sgst = Some (if tt = ''CGST_SGST'' then round2 (jdivc t 2) else Fin 0),
           set_taxType = Some tt,
           set_taxRate = Some actualTaxRate,
           set_discountAmount = upd_discountAmount updateData,
           set_transportCharges = upd_transportCharges updateData,
           set_otherCharges = upd_otherCharges updateData,
           set_roundingAdjustment = upd_roundingAdjustment updateData,
           set_paidAmount = upd_paidAmount updateData,
           set_invoiceNumber = upd_invoiceNumber updateData,
           set_status = upd_status updateData,
           set_paymentStatus = upd_paymentStatus updateData \<rparr>)"

text \<open>Without that block, the keys of the body are written as they came.\<close>

definition passThrough :: "updateBody \<Rightarrow> updateSet" where
  "passThrough updateData =
     \<lparr> set_lineItems = None,
       set_subtotal = upd_subtotal updateData,
       set_totalTaxAmount = upd_totalTaxAmount updateData,
       set_finalAmount = upd_finalAmount updateData,
       set_balanceAmount = upd_balanceAmount updateData,
       set_igst = upd_igst updateData,
       set_cgst = upd_cgst updateData,
       set_sgst = upd_sgst updateData,
       set_taxType = upd_taxType updateData,
       set_taxRate = upd_taxRate updateData,
       set_discountAmount = upd_discountAmount updateData,
       set_transportCharges = upd_transportCharges updateData,
       set_otherCharges = upd_otherCharges updateData,
       set_roundingAdjustment = upd_roundingAdjustment updateData,
       set_paidAmount = upd_paidAmount updateData,
       set_invoiceNumber = upd_invoiceNumber updateData,
       set_status = upd_status updateData,
       set_paymentStatus = upd_paymentStatus updateData \<rparr>"

text \<open>
  The handler up to the call of \<open>findOneAndUpdate\<close>. With \<open>lineItems\<close> absent and a
  charge defined, \<open>updateData.lineItems.map\<close> throws a TypeError, which the handler's
  \<open>catch\<close> answers with status 500.
\<close>

definition prepareUpdate :: "updateBody \<Rightarrow> error + updateSet" where
  "prepareUpdate updateData =
     (if upd_lineItems updateData \<noteq> None \<or> upd_transportCharges updateData \<noteq> None
         \<or> upd_otherCharges updateData \<noteq> None
      then (case upd_lineItems updateData of
              None \<Rightarrow> Inl UpdateFailed
            | Some raw \<Rightarrow> Inr (recalculate updateData raw))
      else Inr (passThrough updateData))"

definition orKeep :: "'a option \<Rightarrow> 'a \<Rightarrow> 'a" where
  "orKeep new old = (case new of None \<Rightarrow> old | Some v \<Rightarrow> v)"

text \<open>The stored document with the keys of \<open>updateData\<close> overwritten.\<close>

definition applySet :: "invoice \<Rightarrow> updateSet \<Rightarrow> invoice" where
  "applySet doc u =
     doc\<lparr> lineItems := orKeep (set_lineItems u) (lineItems doc),
          subtotal := orKeep (set_subtotal u) (subtotal doc),
          totalTaxAmount := orKeep (set_totalTaxAmount u) (totalTaxAmount doc),
          finalAmount := orKeep (set_finalAmount u) (finalAmount doc),
          balanceAmount := orKeep (set_balanceAmount u) (balanceAmount doc),
          igst := orKeep (set_igst u) (igst doc),
          cgst := orKeep (set_cgst u) (cgst doc),
          sgst := orKeep (set_sgst u) (sgst doc),
          taxType := orKeep (set_taxType u) (taxType doc),
          taxRate := orKeep (set_taxRate u) (taxRate doc),
          discountAmount := orKeep (set_discountAmount u) (discountAmount doc),
          transportCharges := orKeep (set_transportCharges u) (transportCharges doc),
          otherCharges := orKeep (set_otherCharges u) (otherCharges doc),
          roundingAdjustment := orKeep (set_roundingAdjustment u) (roundingAdjustment doc),
          paidAmount := orKeep (set_paidAmount u) (paidAmount doc),
          invoiceNumber := orKeep (set_invoiceNumber u) (invoiceNumber doc),
          status := orKeep (set_status u) (status doc),
          paymentStatus := orKeep (set_paymentStatus u) (paymentStatus doc) \<rparr>"

fun replaceFirst :: "('a \<Rightarrow> bool) \<Rightarrow> 'a \<Rightarrow> 'a list \<Rightarrow> 'a list" where
  "replaceFirst P new [] = []"
| "replaceFirst P new (x # xs) = (if P x then new # xs else x # replaceFirst P new xs)"

text \<open>
  \<open>PUT /invoices/:id\<close>. \<open>findOneAndUpdate\<close> writes the keys without running the
  pre-save hook, and no key is checked against the other documents: the schema declares
  no unique index. The validators it runs on the written keys are not modelled: a
  result \<open>Inr\<close> here is a document the handler asks the store to write.
\<close>

definition updateInvoice ::
  "invoice list \<Rightarrow> nat \<Rightarrow> nat \<Rightarrow> updateBody \<Rightarrow> (error + invoice) \<times> invoice list" where
  "updateInvoice store ident owner updateData =
     (case prepareUpdate updateData of
        Inl err \<Rightarrow> (Inl err, store)
      | Inr u \<Rightarrow>
          (case find (\<lambda>d. inv_id d = ident \<and> ownerId d = owner) store of
             None \<Rightarrow> (Inl InvoiceNotFound, store)
           | Some doc \<Rightarrow>
               (let doc' = applySet doc u
                in (Inr doc', replaceFirst (\<lambda>d. inv_id d = ident \<and> ownerId d = owner) doc' store))))"

text \<open>
  \<open>PUT /invoices/:id/status\<close>: the handler's assignments, then \<open>invoice.save()\<close>, which
  runs the pre-save hook. The three accepted values belong to both status enums, so the
  validation of the modified paths passes.
\<close>

definition updateInvoiceStatus ::
  "invoice list \<Rightarrow> nat \<Rightarrow> nat \<Rightarrow> string \<Rightarrow> (error + invoice) \<times> invoice list" where
  "updateInvoiceStatus store ident owner newStatus =
     (if newStatus \<notin> set [''pending'', ''paid'', ''cancelled''] then (Inl InvalidStatus, store)
      else
        (case find (\<lambda>d. inv_id d = ident \<and> ownerId d = owner) store of
           None \<Rightarrow> (Inl InvoiceNotFound, store)
         | Some doc \<Rightarrow>
             (let d1 = doc\<lparr> status := newStatus, paymentStatus := newStatus \<rparr>;
                  d2 = (if newStatus = ''paid''
                        then d1\<lparr> paidAmount := finalAmount d1, balanceAmount := Fin 0 \<rparr>
                        else if newStatus = ''pending''
                        then d1\<lparr> paidAmount := Fin 0, balanceAmount := finalAmount d1 \<rparr>
                        else d1);
                  doc' = preSave d2
              in (Inr doc', replaceFirst (\<lambda>d. inv_id d = ident \<and> ownerId d = owner) doc' store))))"

section \<open>The properties under verification\<close>

text \<open>
  The rule of the specification for the payment status (P5), over the amounts of a
  document.
\<close>

definition specPaymentStatus :: "invoice \<Rightarrow> bool" where
  "specPaymentStatus doc =
     ((jle (balanceAmount doc) (Fin 0) \<longrightarrow> paymentStatus doc = ''paid'')
      \<and> (jgt (paidAmount doc) (Fin 0) \<and> jgt (balanceAmount doc) (Fin 0)
           \<longrightarrow> paymentStatus doc = ''partial'')
      \<and> (paidAmount doc = Fin 0 \<and> jgt (balanceAmount doc) (Fin 0)
           \<longrightarrow> paymentStatus doc = ''pending''))"

text \<open>The final amount the specification asks for, over the fields of a document.\<close>

definition specFinalAmount :: "invoice \<Rightarrow> jsnum" where
  "specFinalAmount doc =
     round2 (jadd (jadd (jadd (jsub (jadd (subtotal doc) (totalTaxAmount doc)) (discountAmount doc))
        (transportCharges doc)) (otherCharges doc)) (roundingAdjustment doc))"

text \<open>
  The sum of the tax amounts of a list of lines, added up from \<open>0\<close> in the order of
  the list, as each \<open>reduce\<close> of the source does.
\<close>

definition taxSum :: "lineItem list \<Rightarrow> jsnum" where
  "taxSum items = foldl (\<lambda>sum item. jadd sum (taxAmount item)) (Fin 0) items"

text \<open>
  The split of a tax total \<open>t\<close> on a document: under \<open>CGST_SGST\<close> both halves are
  \<open>round2 (t / 2)\<close> and \<open>igst\<close> is zero, otherwise \<open>igst\<close> is \<open>round2 t\<close> and both
  halves are zero.
\<close>

definition splitOf :: "jsnum \<Rightarrow> invoice \<Rightarrow> bool" where
  "splitOf t doc =
     ((taxType doc = ''CGST_SGST'' \<longrightarrow>
          cgst doc = round2 (jdivc t 2) \<and> sgst doc = round2 (jdivc t 2) \<and> igst doc = Fin 0)
      \<and> (taxType doc \<noteq> ''CGST_SGST'' \<longrightarrow>
          igst doc = round2 t \<and> cgst doc = Fin 0 \<and> sgst doc = Fin 0))"

text \<open>
  The split of \<open>h\<close> under the tax type \<open>tt\<close> has no non-zero part: the case in which
  the pre-save hook finds nothing set by the create handler.
\<close>

definition zeroSplit :: "jsnum \<Rightarrow> string \<Rightarrow> bool" where
  "zeroSplit h tt =
     (if tt = ''CGST_SGST'' then round2 (jdivc h 2) = Fin 0 else round2 h = Fin 0)"

text \<open>
  A value that is missing, null, the empty string or not numeric; and a value that does
  not denote an infinity.
\<close>

definition blank :: "jsval \<Rightarrow> bool" where
  "blank v = (v = Undefined \<or> v = Null \<or> v = EmptyStr \<or> isNaN (toNumber v))"

definition finiteValue :: "jsval \<Rightarrow> bool" where
  "finiteValue v = (toNumber v \<noteq> PInf \<and> toNumber v \<noteq> NInf)"

text \<open>
  The safe-number policy on a line (with \<open>rate\<close> the invoice-level tax rate) and on
  the charges: a blank value has its default, any other value is its number. A line
  rate and its alias \<open>gstRate\<close> that are both blank give 18 when one of them is text
  that is no numeral, and otherwise the invoice-level rate, or 18 when that is blank
  too.
\<close>

definition coercedLine :: "jsval \<Rightarrow> rawLineItem \<Rightarrow> lineItem \<Rightarrow> bool" where
  "coercedLine rate raw item =
     (quantity item = (if blank (raw_quantity raw) then Fin 1 else toNumber (raw_quantity raw))
      \<and> unitPrice item
          = (if blank (raw_unitPrice raw) then Fin 0 else toNumber (raw_unitPrice raw))
      \<and> (blank (raw_taxRate raw) \<and> blank (raw_gstRate raw) \<longrightarrow>
            itemTaxRate item
              = (if truthy (raw_taxRate raw) \<or> truthy (raw_gstRate raw) \<or> blank rate
                 then Fin 18 else toNumber rate)))"

definition coercedCharges :: "createRequest \<Rightarrow> invoice \<Rightarrow> bool" where
  "coercedCharges req doc =
     (discountAmount doc
        = (if blank (req_discountAmount req) then Fin 0 else toNumber (req_discountAmount req))
      \<and> transportCharges doc
        = (if blank (req_transportCharges req) then Fin 0
           else toNumber (req_transportCharges req))
      \<and> otherCharges doc
        = (if blank (req_otherCharges req) then Fin 0 else toNumber (req_otherCharges req))
      \<and> roundingAdjustment doc
        = (if blank (req_roundingAdjustment req) then Fin 0
           else toNumber (req_roundingAdjustment req)))"

text \<open>No charge of the request is an infinity; no amount of a document is NaN.\<close>

definition finiteCharges :: "createRequest \<Rightarrow> bool" where
  "finiteCharges req =
     (finiteValue (req_discountAmount req) \<and> finiteValue (req_transportCharges req)
      \<and> finiteValue (req_otherCharges req) \<and> finiteValue (req_roundingAdjustment req))"

definition lineNoNaN :: "lineItem \<Rightarrow> bool" where
  "lineNoNaN item =
     (\<not> isNaN (quantity item) \<and> \<not> isNaN (unitPrice item) \<and> \<not> isNaN (itemTaxRate item)
      \<and> \<not> isNaN (lineTotal item) \<and> \<not> isNaN (taxAmount item) \<and> \<not> isNaN (totalAmount item))"

definition monetaryNoNaN :: "invoice \<Rightarrow> bool" where
  "monetaryNoNaN doc =
     (\<not> isNaN (subtotal doc) \<and> \<not> isNaN (totalTaxAmount doc) \<and> \<not> isNaN (discountAmount doc)
      \<and> \<not> isNaN (roundingAdjustment doc) \<and> \<not> isNaN (transportCharges doc)
      \<and> \<not> isNaN (otherCharges doc) \<and> \<not> isNaN (finalAmount doc) \<and> \<not> isNaN (paidAmount doc)
      \<and> \<not> isNaN (balanceAmount doc) \<and> \<not> isNaN (igst doc) \<and> \<not> isNaN (cgst doc)
      \<and> \<not> isNaN (sgst doc) \<and> \<not> isNaN (taxRate doc)
      \<and> list_all lineNoNaN (lineItems doc))"

text \<open>A line with an absent quantity or unit price replaced by the default.\<close>

definition fillDefaults :: "rawLineItem \<Rightarrow> rawLineItem" where
  "fillDefaults raw =
     raw\<lparr> raw_quantity := (if raw_quantity raw = Undefined then Num (Fin 1) else raw_quantity raw),
          raw_unitPrice := (if raw_unitPrice raw = Undefined then Num (Fin 0) else raw_unitPrice raw) \<rparr>"

section \<open>Sample requests and documents\<close>

definition rawItem :: "jsval \<Rightarrow> jsval \<Rightarrow> jsval \<Rightarrow> rawLineItem" where
  "rawItem q p r = \<lparr> raw_quantity = q, raw_unitPrice = p, raw_taxRate = r, raw_gstRate = Undefined \<rparr>"

definition line :: "jsnum \<Rightarrow> jsnum \<Rightarrow> jsnum \<Rightarrow> jsnum \<Rightarrow> jsnum \<Rightarrow> jsnum \<Rightarrow> lineItem" where
  "line q p r lt ta tot =
     \<lparr> quantity = q, unitPrice = p, itemTaxRate = r, lineTotal = lt, taxAmount = ta,
       totalAmount = tot \<rparr>"

text \<open>
  One customer of owner 1, no settings document, a clock that stands still and a
  constant random value: every candidate number of a request is the same.
\<close>

definition env0 :: env where
  "env0 = \<lparr> env_customers = [\<lparr> cust_id = 1, cust_ownerId = 1, cust_name = ''Acme'' \<rparr>],
            env_settings = None,
            env_currentYear = 2024,
            env_now = (\<lambda>k. 1700000123456),
            env_random = (\<lambda>k. 7),
            env_newId = 1 \<rparr>"

text \<open>The same with a clock that advances by one second per reading.\<close>

definition env1 :: env where
  "env1 = env0\<lparr> env_now := (\<lambda>k. 1700000123456 + 1000 * k), env_newId := 2 \<rparr>"

definition request :: "rawLineItem list \<Rightarrow> createRequest" where
  "request items =
     \<lparr> req_ownerId = 1, req_customerId = Some 1, req_customerName = [],
       req_lineItems = Some items, req_dueDate = Some 1700600000000,
       req_discountAmount = Undefined, req_transportCharges = Undefined,
       req_otherCharges = Undefined, req_roundingAdjustment = Undefined,
       req_taxType = None, req_taxRate = Undefined, req_tags = [], req_invoiceType = None \<rparr>"

text \<open>Scenario A of the specification: one line of 3 at 100 with 18 percent, IGST.\<close>

definition requestA :: createRequest where
  "requestA = request [rawItem (Num (Fin 3)) (Num (Fin 100)) (Num (Fin 18))]"

definition docA :: invoice where
  "docA = \<lparr> inv_id = 1, ownerId = 1, customerId = 1,
            invoiceNumber = ''SALE-2024-123456007'',
            dueDate = Some 1700600000000, status = ''pending'', paymentStatus = ''pending'',
            customerName = ''Acme'', tags = [''SALES''], invoiceType = ''SALES'',
            igst = Fin 54, cgst = Fin 0, sgst = Fin 0, taxRate = Fin 18, taxType = ''IGST'',
            lineItems = [line (Fin 3) (Fin 100) (Fin 18) (Fin 300) (Fin 54) (Fin 354)],
            subtotal = Fin 300, totalTaxAmount = Fin 54, discountAmount = Fin 0,
            roundingAdjustment = Fin 0, transportCharges = Fin 0, otherCharges = Fin 0,
            finalAmount = Fin 354, paidAmount = Fin 0, balanceAmount = Fin 354 \<rparr>"

text \<open>Document A after \<open>PUT /invoices/1/status\<close> with status \<open>paid\<close>.\<close>

definition docPaid :: invoice where
  "docPaid = docA\<lparr> status := ''paid'', paymentStatus := ''paid'', paidAmount := Fin 354,
                   balanceAmount := Fin 0 \<rparr>"

text \<open>The document created from one line without a quantity, at unit price 50.\<close>

definition docD :: invoice where
  "docD = docA\<lparr> igst := Fin 9,
                lineItems := [line (Fin 1) (Fin 50) (Fin 18) (Fin 50) (Fin 9) (Fin 59)],
                subtotal := Fin 50, totalTaxAmount := Fin 9, finalAmount := Fin 59,
                balanceAmount := Fin 59 \<rparr>"






definition emptyBody :: updateBody where
  "emptyBody = \<lparr> upd_lineItems = None, upd_discountAmount = None, upd_transportCharges = None,
                 upd_otherCharges = None, upd_roundingAdjustment = None, upd_taxType = None,
                 upd_taxRate = None, upd_igst = None, upd_cgst = None, upd_sgst = None,
                 upd_paidAmount = None, upd_invoiceNumber = None, upd_status = None,
                 upd_paymentStatus = None, upd_subtotal = None, upd_totalTaxAmount = None,
                 upd_finalAmount = None, upd_balanceAmount = None \<rparr>"

text \<open>An update body that sends the line of scenario A again.\<close>

definition bodyA :: updateBody where
  "bodyA = emptyBody\<lparr> upd_lineItems := Some [rawItem (Num (Fin 3)) (Num (Fin 100)) (Num (Fin 18))] \<rparr>"

text \<open>Document A after that update with \<open>roundingAdjustment: 0.5\<close> added to the body.\<close>

definition docRounding :: invoice where
  "docRounding = docA\<lparr> roundingAdjustment := Fin (1 / 2) \<rparr>"

text \<open>The document created from scenario A with \<open>discountAmount: 0.001\<close>.\<close>

definition docDiscount :: invoice where
  "docDiscount = docA\<lparr> discountAmount := Fin (1 / 1000), finalAmount := Fin (353999 / 1000),
                       balanceAmount := Fin (353999 / 1000) \<rparr>"

text \<open>The paid document A after an update that changes the line to 4 at 100.\<close>

definition docEdited :: invoice where
  "docEdited = docPaid\<lparr> igst := Fin 72,
                  lineItems := [line (Fin 4) (Fin 100) (Fin 18) (Fin 400) (Fin 72) (Fin 472)],
                  subtotal := Fin 400, totalTaxAmount := Fin 72, finalAmount := Fin 472,
                  balanceAmount := Fin 472 \<rparr>"

text \<open>Document A after an update that sends its line again with \<open>taxType: CGST_SGST\<close>.\<close>

definition docSplit :: invoice where
  "docSplit = docA\<lparr> igst := Fin 0, cgst := Fin 27, sgst := Fin 27, taxType := ''CGST_SGST'' \<rparr>"

text \<open>One line of 1 at 1 with 25 percent, split into CGST and SGST, and its document.\<close>

definition requestH :: createRequest where
  "requestH = (request [rawItem (Num (Fin 1)) (Num (Fin 1)) (Num (Fin 25))])
                \<lparr> req_taxType := Some ''CGST_SGST'' \<rparr>"

definition docH :: invoice where
  "docH = docA\<lparr> igst := Fin 0, cgst := Fin (13 / 100), sgst := Fin (13 / 100),
                taxType := ''CGST_SGST'',
                lineItems := [line (Fin 1) (Fin 1) (Fin 25) (Fin 1) (Fin (1 / 4)) (Fin (5 / 4))],
                subtotal := Fin 1, totalTaxAmount := Fin (1 / 4), finalAmount := Fin (5 / 4),
                balanceAmount := Fin (5 / 4) \<rparr>"

text \<open>The request with one line without a quantity, at unit price 50.\<close>

definition requestD :: createRequest where
  "requestD = request [rawItem Undefined (Num (Fin 50)) (Num (Fin 18))]"

text \<open>
  A line whose quantity is the JSON number \<open>1e999\<close>, which \<open>JSON.parse\<close> reads as
  \<open>Infinity\<close>, at unit price 1, and the document created from it.
\<close>

definition requestInf :: createRequest where
  "requestInf = request [rawItem (Num PInf) (Num (Fin 1)) Undefined]"

definition docInf :: invoice where
  "docInf = docA\<lparr> igst := PInf,
                  lineItems := [line PInf (Fin 1) (Fin 18) PInf PInf PInf],
                  subtotal := PInf, totalTaxAmount := PInf, finalAmount := PInf,
                  balanceAmount := PInf \<rparr>"

section \<open>Rounding and sums\<close>

lemma floor_rat_numeral_div [simp]: "\<lfloor>(numeral a / numeral b :: rat)\<rfloor> = numeral a div numeral b"
  by (metis floor_divide_of_int_eq of_int_numeral)

lemma floor_rat_one_div [simp]: "\<lfloor>(1 / numeral b :: rat)\<rfloor> = 1 div numeral b"
  by (metis floor_divide_of_int_eq of_int_1 of_int_numeral)

lemma floor_rat_neg_numeral_div [simp]:
  "\<lfloor>(- numeral a / numeral b :: rat)\<rfloor> = - numeral a div numeral b"
  by (metis floor_divide_of_int_eq of_int_minus of_int_numeral)

lemma round2_Fin: "round2 (Fin a) = Fin (of_int \<lfloor>a * 100 + 1 / 2\<rfloor> / 100)"
  by (simp add: round2_def)

lemma round2_special [simp]: "round2 PInf = PInf" "round2 NInf = NInf" "round2 NaN = NaN"
  by (simp_all add: round2_def)

lemma isNaN_round2 [simp]: "isNaN (round2 x) = isNaN x"
  by (cases x) (simp_all add: round2_Fin)

lemma round2_zero [simp]: "round2 (Fin 0) = Fin 0"
  by (simp add: round2_Fin)



lemma processLineItem_fields:
  "\<not> isNaN (lineTotal (processLineItem r i))"
  "\<not> isNaN (taxAmount (processLineItem r i))"
  by (simp_all add: processLineItem_def Let_def)

lemma numOr_zero_id: "\<not> isNaN x \<Longrightarrow> numOr x (Fin 0) = x"
  by (auto simp: numOr_def)

lemma safeNumber_Num: "\<not> isNaN x \<Longrightarrow> safeNumber (Num x) d = x"
  by (simp add: safeNumber_def)

lemma foldl_cong_set:
  "(\<And>i. i \<in> set items \<Longrightarrow> f i = g i) \<Longrightarrow>
   foldl (\<lambda>sum item. jadd sum (f item)) acc items = foldl (\<lambda>sum item. jadd sum (g item)) acc items"
  by (induction items arbitrary: acc) simp_all

lemma handler_tax_sum:
  "foldl (\<lambda>sum item. jadd sum (safeNumber (Num (taxAmount item)) (Fin 0))) (Fin 0) (map (processLineItem r) items)
   = taxSum (map (processLineItem r) items)"
  unfolding taxSum_def by (rule foldl_cong_set) (auto simp: safeNumber_Num processLineItem_fields)

lemma hook_tax_sum:
  "foldl (\<lambda>sum item. jadd sum (numOr (taxAmount item) (Fin 0))) (Fin 0) (map (processLineItem r) items)
   = taxSum (map (processLineItem r) items)"
  unfolding taxSum_def by (rule foldl_cong_set) (auto simp: numOr_zero_id processLineItem_fields)

lemma hookPaymentStatus_tax [simp]:
  "taxType (hookPaymentStatus d) = taxType d" "igst (hookPaymentStatus d) = igst d"
  "cgst (hookPaymentStatus d) = cgst d" "sgst (hookPaymentStatus d) = sgst d"
  "totalTaxAmount (hookPaymentStatus d) = totalTaxAmount d"
  by (simp_all add: hookPaymentStatus_def)

lemma preSave_lineItems [simp]: "lineItems (preSave d) = lineItems d"
  by (simp add: preSave_def hookPaymentStatus_def hookTaxBreakdown_def hookTotals_def Let_def)

lemma preSave_taxType [simp]: "taxType (preSave d) = taxType d"
  by (simp add: preSave_def hookPaymentStatus_def hookTaxBreakdown_def hookTotals_def Let_def)

lemma preSave_totalTaxAmount:
  "totalTaxAmount (preSave d)
   = foldl (\<lambda>sum item. jadd sum (numOr (taxAmount item) (Fin 0))) (Fin 0) (lineItems d)"
  by (simp add: preSave_def hookTaxBreakdown_def hookTotals_def Let_def)

lemma created_tax_total:
  "totalTaxAmount (preSave (buildInvoice e req cust n items))
   = taxSum (lineItems (preSave (buildInvoice e req cust n items)))"
  by (simp add: preSave_totalTaxAmount) (simp add: buildInvoice_def Let_def hook_tax_sum)

lemma created_split:
  "if jgt (totalTaxAmount (preSave (buildInvoice e req cust n items))) (Fin 0)
      \<and> zeroSplit (round2 (totalTaxAmount (preSave (buildInvoice e req cust n items))))
            (taxType (preSave (buildInvoice e req cust n items)))
   then splitOf (totalTaxAmount (preSave (buildInvoice e req cust n items)))
          (preSave (buildInvoice e req cust n items))
   else splitOf (round2 (totalTaxAmount (preSave (buildInvoice e req cust n items))))
          (preSave (buildInvoice e req cust n items))"
  by (auto simp: preSave_def hookTaxBreakdown_def hookTotals_def buildInvoice_def Let_def
        handler_tax_sum hook_tax_sum splitOf_def zeroSplit_def)

lemma hookTaxBreakdown_split:
  assumes "igst d = Fin 0" and "cgst d = Fin 0" and "sgst d = Fin 0"
    and "jgt (totalTaxAmount d) (Fin 0)"
  shows "splitOf (totalTaxAmount d) (hookTaxBreakdown d)"
  using assms by (simp add: hookTaxBreakdown_def splitOf_def)

lemma splitOf_hookPaymentStatus [simp]: "splitOf t (hookPaymentStatus d) = splitOf t d"
  by (simp add: splitOf_def)

lemma preSave_split:
  assumes "igst d = Fin 0" and "cgst d = Fin 0" and "sgst d = Fin 0"
    and "jgt (totalTaxAmount (preSave d)) (Fin 0)"
  shows "splitOf (totalTaxAmount (preSave d)) (preSave d)"
proof -
  have t: "totalTaxAmount (preSave d) = totalTaxAmount (hookTotals d)"
    by (simp add: preSave_def hookTaxBreakdown_def)
  have "igst (hookTotals d) = Fin 0" "cgst (hookTotals d) = Fin 0" "sgst (hookTotals d) = Fin 0"
    using assms(1-3) by (simp_all add: hookTotals_def Let_def)
  moreover from assms(4) have "jgt (totalTaxAmount (hookTotals d)) (Fin 0)" by (simp add: t)
  ultimately have "splitOf (totalTaxAmount (hookTotals d)) (hookTaxBreakdown (hookTotals d))"
    by (rule hookTaxBreakdown_split)
  then show ?thesis unfolding t by (simp add: preSave_def)
qed

lemma saveNew_Inr: "saveNew st d = (Inr d', st') \<Longrightarrow> d' = preSave d \<and> st' = st @ [d'] \<and> validateInvoice d"
  by (auto simp: saveNew_def Let_def split: if_splits)

lemma createInvoice_Inr:
  assumes "createInvoice e st req = (Inr d', st')"
  shows "\<exists>cust n items. req_lineItems req = Some items \<and> items \<noteq> [] 
           \<and> d' = preSave (buildInvoice e req cust n items) \<and> st' = st @ [d']
           \<and> validateInvoice (buildInvoice e req cust n items)
           \<and> criticalNaN (buildInvoice e req cust n items) = None"
  using assms
  by (auto simp: createInvoice_def Let_def split: option.splits if_splits sum.splits dest!: saveNew_Inr)

lemma prepareUpdate_Some:
  "upd_lineItems body = Some raw \<Longrightarrow> prepareUpdate body = Inr (recalculate body raw)"
  by (simp add: prepareUpdate_def)

lemma updateInvoice_Inr:
  assumes "updateInvoice st i ow body = (Inr d', st')"
  shows "\<exists>d u. prepareUpdate body = Inr u \<and> find (\<lambda>d. inv_id d = i \<and> ownerId d = ow) st = Some d
            \<and> d' = applySet d u"
  using assms
  by (simp add: updateInvoice_def Let_def split: sum.splits option.splits)

lemma recalculate_split:
  "totalTaxAmount (applySet d (recalculate body raw))
     = round2 (taxSum (lineItems (applySet d (recalculate body raw))))
   \<and> splitOf (taxSum (lineItems (applySet d (recalculate body raw))))
        (applySet d (recalculate body raw))"
  by (simp add: recalculate_def Let_def applySet_def orKeep_def splitOf_def taxSum_def)

lemma updated_split:
  assumes "updateInvoice st i ow body = (Inr d', st')" and "upd_lineItems body \<noteq> None"
  shows "totalTaxAmount d' = round2 (taxSum (lineItems d')) \<and> splitOf (taxSum (lineItems d')) d'"
proof -
  from assms(2) obtain raw where raw: "upd_lineItems body = Some raw" by blast
  from updateInvoice_Inr [OF assms(1)] obtain d u where
    "prepareUpdate body = Inr u" and "d' = applySet d u" by blast
  with prepareUpdate_Some [OF raw] show ?thesis by (simp add: recalculate_split)
qed

section \<open>The sample requests, evaluated\<close>


lemmas eval_create = createInvoice_def requestPrefix_def request_def rawItem_def line_def env0_def env1_def
  resolveType_def customPrefixOf_def generateInvoiceNumber.simps maxAttempts_def candidate_def
  sequenceOf_def showNat.simps sliceLast_def padStart.simps digitChar_def
  buildInvoice_def Let_def processLineItem_def safeNumber_def jsor_def withDefault_def
  round2_def jsub_def criticalNaN_def saveNew_def validateInvoice_def validLineItem_def
  jge_def jle_def jgt_def strOr_def
  preSave_def hookTotals_def hookTaxBreakdown_def hookPaymentStatus_def numOr_def

lemma create_docA:
  "createInvoice env0 [] requestA = (Inr docA, [docA])"
  by (simp add: eval_create requestA_def docA_def)

lemma status_docPaid: "updateInvoiceStatus [docA] 1 1 ''paid'' = (Inr docPaid, [docPaid])"
  by (simp add: updateInvoiceStatus_def docA_def docPaid_def line_def Let_def preSave_def
        hookTotals_def hookTaxBreakdown_def hookPaymentStatus_def numOr_def jsub_def jle_def jgt_def)


lemma jle_jgt_excl: "jle a b \<Longrightarrow> jgt a b \<Longrightarrow> False"
  by (cases a; cases b) (auto simp: jle_def jgt_def)

lemma hookPaymentStatus_amounts [simp]:
  "balanceAmount (hookPaymentStatus d) = balanceAmount d"
  "paidAmount (hookPaymentStatus d) = paidAmount d"
  by (simp_all add: hookPaymentStatus_def)

lemma hookPaymentStatus_spec: "specPaymentStatus (hookPaymentStatus d)"
  unfolding specPaymentStatus_def
  by (auto simp: hookPaymentStatus_def jgt_def dest: jle_jgt_excl[unfolded jgt_def])

lemma preSave_spec: "specPaymentStatus (preSave d)"
  by (simp add: preSave_def hookPaymentStatus_spec)

lemma updateInvoiceStatus_Inr:
  assumes "updateInvoiceStatus st i ow s = (Inr d', st')"
  shows "\<exists>d. d' = preSave d"
  using assms
  by (auto simp: updateInvoiceStatus_def Let_def split: option.splits if_splits)

section \<open>The payment status\<close>

text \<open>
  Claim C1. Every document that a save writes has the payment status the
  specification derives from the paid amount and the balance: \<open>paid\<close> when the balance
  is at most zero, \<open>partial\<close> when something is paid and the balance is positive,
  \<open>pending\<close> when nothing is paid and the balance is positive. This holds for the
  pre-save hook on any document, hence for the document \<open>POST /invoices\<close> stores and
  for the one \<open>PUT /invoices/:id/status\<close> stores.
\<close>

theorem payment_status_derived:
  "specPaymentStatus (preSave doc)
   \<and> (\<forall>e st req d st'. createInvoice e st req = (Inr d, st') \<longrightarrow> specPaymentStatus d \<and> d \<in> set st')
   \<and> (\<forall>st i ow s d st'. updateInvoiceStatus st i ow s = (Inr d, st') \<longrightarrow> specPaymentStatus d)"
proof (intro conjI allI impI)
  show "specPaymentStatus (preSave doc)" by (rule preSave_spec)
next
  fix e st req d st'
  assume "createInvoice e st req = (Inr d, st')"
  from createInvoice_Inr [OF this] obtain cust n items where
    "d = preSave (buildInvoice e req cust n items)" and "st' = st @ [d]" by blast
  then show "specPaymentStatus d" and "d \<in> set st'" by (simp_all add: preSave_spec)
next
  fix st i ow s d st'
  assume "updateInvoiceStatus st i ow s = (Inr d, st')"
  from updateInvoiceStatus_Inr [OF this] show "specPaymentStatus d"
    by (auto simp: preSave_spec)
qed

text \<open>
  The three cases at work: document A with 100 paid is \<open>partial\<close>, the created
  document A is \<open>pending\<close>, and marked as paid it is \<open>paid\<close>.
\<close>

theorem payment_status_derived_witness:
  "jgt (paidAmount (preSave (docA\<lparr>paidAmount := Fin 100\<rparr>))) (Fin 0)
   \<and> jgt (balanceAmount (preSave (docA\<lparr>paidAmount := Fin 100\<rparr>))) (Fin 0)
   \<and> paymentStatus (preSave (docA\<lparr>paidAmount := Fin 100\<rparr>)) = ''partial''
   \<and> createInvoice env0 [] requestA = (Inr docA, [docA])
   \<and> paidAmount docA = Fin 0 \<and> jgt (balanceAmount docA) (Fin 0) \<and> paymentStatus docA = ''pending''
   \<and> updateInvoiceStatus [docA] 1 1 ''paid'' = (Inr docPaid, [docPaid])
   \<and> jle (balanceAmount docPaid) (Fin 0) \<and> paymentStatus docPaid = ''paid''"
proof -
  let ?d = "docA\<lparr>paidAmount := Fin 100\<rparr>"
  have amounts: "paidAmount (preSave ?d) = Fin 100" "balanceAmount (preSave ?d) = Fin 254"
    by (simp_all add: docA_def line_def preSave_def hookTotals_def hookTaxBreakdown_def
          Let_def numOr_def jsub_def)
  have h: "jgt (paidAmount (preSave ?d)) (Fin 0)" "jgt (balanceAmount (preSave ?d)) (Fin 0)"
    by (simp_all add: amounts jgt_def)
  from payment_status_derived [of ?d] have "specPaymentStatus (preSave ?d)"
    and c: "specPaymentStatus docA" and u: "specPaymentStatus docPaid"
    using create_docA status_docPaid by blast+
  then have "paymentStatus (preSave ?d) = ''partial''"
    using h by (simp add: specPaymentStatus_def)
  moreover have a: "paidAmount docA = Fin 0" "jgt (balanceAmount docA) (Fin 0)"
    by (simp_all add: docA_def jgt_def)
  moreover from c a have "paymentStatus docA = ''pending''" by (simp add: specPaymentStatus_def)
  moreover have p: "jle (balanceAmount docPaid) (Fin 0)" by (simp add: docPaid_def jle_def)
  moreover from u p have "paymentStatus docPaid = ''paid''" by (simp add: specPaymentStatus_def)
  ultimately show ?thesis using h create_docA status_docPaid by simp
qed

section \<open>The numbers of created invoices\<close>






lemma preSave_invoiceNumber [simp]: "invoiceNumber (preSave d) = invoiceNumber d"
  by (simp add: preSave_def hookPaymentStatus_def hookTaxBreakdown_def hookTotals_def Let_def)

lemma buildInvoice_invoiceNumber [simp]: "invoiceNumber (buildInvoice e req cust n items) = n"
  by (simp add: buildInvoice_def Let_def)






lemma toUpperCase_types [simp]:
  "toUpperCase ''SALES'' = ''SALES''" "toUpperCase ''PURCHASE'' = ''PURCHASE''"
  "toUpperCase ''QUOTATION'' = ''QUOTATION''"
  by (simp_all add: toUpperCase_def upperChar_def)






section \<open>An update of the charges alone\<close>

text \<open>
  Claim C10. An update whose body defines \<open>transportCharges\<close> or \<open>otherCharges\<close> and
  has no \<open>lineItems\<close> enters the recalculation block, where mapping over the absent
  \<open>lineItems\<close> throws: the request is answered with an error and the store is left as
  it was, whatever the store, the invoice and the other keys of the body are.
\<close>

theorem charges_only_update_fails:
  assumes "upd_lineItems body = None"
    and "upd_transportCharges body \<noteq> None \<or> upd_otherCharges body \<noteq> None"
  shows "updateInvoice store ident owner body = (Inl UpdateFailed, store)"
  using assms by (auto simp: updateInvoice_def prepareUpdate_def)

text \<open>A body with \<open>transportCharges: 50\<close> alone, sent for document A.\<close>

theorem charges_only_update_fails_witness:
  "upd_lineItems (emptyBody\<lparr>upd_transportCharges := Some (Fin 50)\<rparr>) = None
   \<and> upd_transportCharges (emptyBody\<lparr>upd_transportCharges := Some (Fin 50)\<rparr>) \<noteq> None
   \<and> updateInvoice [docA] 1 1 (emptyBody\<lparr>upd_transportCharges := Some (Fin 50)\<rparr>)
        = (Inl UpdateFailed, [docA])"
proof -
  have h1: "upd_lineItems (emptyBody\<lparr>upd_transportCharges := Some (Fin 50)\<rparr>) = None"
    by (simp add: emptyBody_def)
  have h2: "upd_transportCharges (emptyBody\<lparr>upd_transportCharges := Some (Fin 50)\<rparr>) \<noteq> None"
    by simp
  from charges_only_update_fails [OF h1 disjI1, OF h2, of "[docA]" 1 1] h1 h2
  show ?thesis by simp
qed

section \<open>Line items without quantity or unit price\<close>

lemma safeNumber_absent [simp]:
  "safeNumber (if v = Undefined then Num d else v) d = safeNumber v d"
  "safeNumber Undefined d = d"
  by (simp_all add: safeNumber_def)

lemma fillDefaults_fields [simp]:
  "raw_quantity (fillDefaults raw)
     = (if raw_quantity raw = Undefined then Num (Fin 1) else raw_quantity raw)"
  "raw_unitPrice (fillDefaults raw)
     = (if raw_unitPrice raw = Undefined then Num (Fin 0) else raw_unitPrice raw)"
  "raw_taxRate (fillDefaults raw) = raw_taxRate raw"
  "raw_gstRate (fillDefaults raw) = raw_gstRate raw"
  by (simp_all add: fillDefaults_def)

lemma processLineItem_fillDefaults [simp]:
  "processLineItem rate (fillDefaults raw) = processLineItem rate raw"
  unfolding processLineItem_def fillDefaults_fields safeNumber_absent ..

lemma processLineItem_inputs:
  "quantity (processLineItem rate raw) = safeNumber (raw_quantity raw) (Fin 1)"
  "unitPrice (processLineItem rate raw) = safeNumber (raw_unitPrice raw) (Fin 0)"
  "itemTaxRate (processLineItem rate raw)
     = safeNumber (jsor (jsor (raw_taxRate raw) (raw_gstRate raw)) rate) (Fin 18)"
  by (simp_all add: processLineItem_def Let_def)

lemma buildInvoice_lineItems_irrelevant:
  "buildInvoice e (req\<lparr>req_lineItems := x\<rparr>) cust n items = buildInvoice e req cust n items"
  by (simp add: buildInvoice_def Let_def)

lemma buildInvoice_cong:
  assumes "map (processLineItem (withDefault (req_taxRate req) (Num (Fin 18)))) items
         = map (processLineItem (withDefault (req_taxRate req) (Num (Fin 18)))) items'"
  shows "buildInvoice e req cust n items = buildInvoice e req cust n items'"
  by (simp add: buildInvoice_def Let_def assms)

lemma requestPrefix_lineItems_irrelevant [simp]:
  "requestPrefix e (req\<lparr>req_lineItems := x\<rparr>) = requestPrefix e req"
  by (simp add: requestPrefix_def)

text \<open>
  Claim C9, as stated, fails: a create request whose only line has no \<open>quantity\<close> is
  not rejected. The line is given quantity 1 and the invoice is stored.
\<close>

theorem create_counterexample_missing_quantity:
  "raw_quantity (rawItem Undefined (Num (Fin 50)) (Num (Fin 18))) = Undefined
   \<and> createInvoice env0 [] (request [rawItem Undefined (Num (Fin 50)) (Num (Fin 18))])
        = (Inr docD, [docD])"
  by (simp add: eval_create docD_def docA_def)

text \<open>
  Claim C9, amended. A line item whose \<open>quantity\<close> or \<open>unitPrice\<close> is absent is not a
  validation failure of the create operation: the quantity is read as 1 and the unit
  price as 0, and the request is answered exactly as the same request with these values
  written out.
\<close>

theorem missing_fields_defaulted:
  "createInvoice e store (req\<lparr>req_lineItems := Some (map fillDefaults items)\<rparr>)
     = createInvoice e store (req\<lparr>req_lineItems := Some items\<rparr>)
   \<and> (raw_quantity raw = Undefined \<longrightarrow> quantity (processLineItem rate raw) = Fin 1)
   \<and> (raw_unitPrice raw = Undefined \<longrightarrow> unitPrice (processLineItem rate raw) = Fin 0)"
proof (intro conjI impI)
  have b: "buildInvoice e req cust n (map fillDefaults items) = buildInvoice e req cust n items"
    for cust n
    by (rule buildInvoice_cong) simp
  show "createInvoice e store (req\<lparr>req_lineItems := Some (map fillDefaults items)\<rparr>)
     = createInvoice e store (req\<lparr>req_lineItems := Some items\<rparr>)"
  proof (cases "req_customerId req")
    case None
    then show ?thesis by (simp add: createInvoice_def)
  next
    case cid: (Some cid)
    show ?thesis
    proof (cases "items = []")
      case True
      with cid show ?thesis by (simp add: createInvoice_def)
    next
      case items: False
      show ?thesis
      proof (cases "find (\<lambda>c. cust_id c = cid \<and> cust_ownerId c = req_ownerId req) (env_customers e)")
        case None
        with cid items show ?thesis by (simp add: createInvoice_def)
      next
        case cust: (Some cust)
        show ?thesis
        proof (cases "generateInvoiceNumber store (requestPrefix e req) (env_now e) (env_random e) 0")
          case (Inl err)
          with cid items cust show ?thesis by (simp add: createInvoice_def)
        next
          case (Inr number)
          with cid items cust show ?thesis
            by (simp add: createInvoice_def b buildInvoice_lineItems_irrelevant)
        qed
      qed
    qed
  qed
qed (simp_all add: processLineItem_inputs)

text \<open>A line without quantity and a line without unit price.\<close>

theorem missing_fields_defaulted_witness:
  "raw_quantity (rawItem Undefined (Num (Fin 50)) (Num (Fin 18))) = Undefined
   \<and> quantity (processLineItem (Num (Fin 18)) (rawItem Undefined (Num (Fin 50)) (Num (Fin 18)))) = Fin 1
   \<and> raw_unitPrice (rawItem (Num (Fin 2)) Undefined (Num (Fin 18))) = Undefined
   \<and> unitPrice (processLineItem (Num (Fin 18)) (rawItem (Num (Fin 2)) Undefined (Num (Fin 18)))) = Fin 0"
proof -
  have h1: "raw_quantity (rawItem Undefined (Num (Fin 50)) (Num (Fin 18))) = Undefined"
    and h2: "raw_unitPrice (rawItem (Num (Fin 2)) Undefined (Num (Fin 18))) = Undefined"
    by (simp_all add: rawItem_def)
  from missing_fields_defaulted [of _ _ _ _ "rawItem Undefined (Num (Fin 50)) (Num (Fin 18))" "Num (Fin 18)"] h1
  have a: "quantity (processLineItem (Num (Fin 18)) (rawItem Undefined (Num (Fin 50)) (Num (Fin 18)))) = Fin 1"
    by blast
  from missing_fields_defaulted [of _ _ _ _ "rawItem (Num (Fin 2)) Undefined (Num (Fin 18))" "Num (Fin 18)"] h2
  have b: "unitPrice (processLineItem (Num (Fin 18)) (rawItem (Num (Fin 2)) Undefined (Num (Fin 18)))) = Fin 0"
    by blast
  show ?thesis by (intro conjI h1 h2 a b)
qed

section \<open>The arithmetic of a line\<close>




section \<open>The update scenarios, evaluated\<close>

lemmas eval_update = updateInvoice_def prepareUpdate_def recalculate_def applySet_def orKeep_def
  optOr_def optNumber_def updateLineItem_def emptyBody_def bodyA_def rawItem_def line_def Let_def
  jsor_def numOr_def strOr_def round2_def jsub_def

lemma update_docRounding:
  "updateInvoice [docA] 1 1 (bodyA\<lparr> upd_roundingAdjustment := Some (Fin (1 / 2)) \<rparr>)
     = (Inr docRounding, [docRounding])"
  by (simp add: eval_update docRounding_def docA_def)

lemma create_docDiscount:
  "createInvoice env0 [] (requestA\<lparr> req_discountAmount := Num (Fin (1 / 1000)) \<rparr>)
     = (Inr docDiscount, [docDiscount])"
  by (simp add: eval_create requestA_def docDiscount_def docA_def)

lemma update_docEdited:
  "updateInvoice [docPaid] 1 1
     (emptyBody\<lparr> upd_lineItems := Some [rawItem (Num (Fin 4)) (Num (Fin 100)) (Num (Fin 18))] \<rparr>)
     = (Inr docEdited, [docEdited])"
  by (simp add: eval_update docEdited_def docPaid_def docA_def)

lemma update_docSplit:
  "updateInvoice [docA] 1 1 (bodyA\<lparr> upd_taxType := Some ''CGST_SGST'' \<rparr>)
     = (Inr docSplit, [docSplit])"
  by (simp add: eval_update docSplit_def docA_def)

lemma create_docH: "createInvoice env0 [] requestH = (Inr docH, [docH])"
  by (simp add: eval_create requestH_def docH_def docA_def)

section \<open>The final amount\<close>

text \<open>
  Claim C2 (a defect of the code). The claim asks for
  \<open>finalAmount = round2 (subtotal + totalTaxAmount - discountAmount + transportCharges
  + otherCharges + roundingAdjustment)\<close> over the stored fields after every create and
  update. The update handler leaves \<open>roundingAdjustment\<close> out of its sum: the update
  of document A with \<open>roundingAdjustment: 0.5\<close> stores the adjustment 0.5 beside the final
  amount 354, where the claim asks for 354.5. On creation the pre-save hook replaces the
  rounded amount of the handler with the unrounded sum: with \<open>discountAmount: 0.001\<close>
  the stored final amount is 353.999, where the claim asks for 354.
\<close>

theorem final_amount_diverges:
  "updateInvoice [docA] 1 1 (bodyA\<lparr> upd_roundingAdjustment := Some (Fin (1 / 2)) \<rparr>)
     = (Inr docRounding, [docRounding])
   \<and> roundingAdjustment docRounding = Fin (1 / 2)
   \<and> finalAmount docRounding = Fin 354
   \<and> specFinalAmount docRounding = Fin (709 / 2)
   \<and> createInvoice env0 [] (requestA\<lparr> req_discountAmount := Num (Fin (1 / 1000)) \<rparr>)
     = (Inr docDiscount, [docDiscount])
   \<and> finalAmount docDiscount = Fin (353999 / 1000)
   \<and> specFinalAmount docDiscount = Fin 354"
proof -
  have r: "roundingAdjustment docRounding = Fin (1 / 2)" "finalAmount docRounding = Fin 354"
    "specFinalAmount docRounding = Fin (709 / 2)"
    by (simp_all add: docRounding_def docA_def specFinalAmount_def jsub_def round2_Fin)
  have d: "finalAmount docDiscount = Fin (353999 / 1000)" "specFinalAmount docDiscount = Fin 354"
    by (simp_all add: docDiscount_def docA_def specFinalAmount_def jsub_def round2_Fin)
  show ?thesis by (intro conjI update_docRounding r create_docDiscount d)
qed

section \<open>The balance\<close>

text \<open>
  Claim C3 (a defect of the code). The claim asks for
  \<open>balanceAmount = finalAmount - paidAmount\<close> after every update, also when the lines of
  an invoice with a paid amount are edited. The update handler assigns the final amount
  to the balance: document A, marked as paid (354 paid), then edited to 4 at 100, is
  stored with final amount 472, paid amount 354 and balance 472, where the claim asks
  for 118.
\<close>

theorem balance_ignores_paid_amount:
  "updateInvoiceStatus [docA] 1 1 ''paid'' = (Inr docPaid, [docPaid])
   \<and> updateInvoice [docPaid] 1 1
        (emptyBody\<lparr> upd_lineItems := Some [rawItem (Num (Fin 4)) (Num (Fin 100)) (Num (Fin 18))] \<rparr>)
       = (Inr docEdited, [docEdited])
   \<and> paidAmount docEdited = Fin 354
   \<and> finalAmount docEdited = Fin 472
   \<and> balanceAmount docEdited = Fin 472
   \<and> jsub (finalAmount docEdited) (paidAmount docEdited) = Fin 118"
proof -
  have f: "paidAmount docEdited = Fin 354" "finalAmount docEdited = Fin 472"
    "balanceAmount docEdited = Fin 472"
    "jsub (finalAmount docEdited) (paidAmount docEdited) = Fin 118"
    by (simp_all add: docEdited_def docPaid_def docA_def jsub_def)
  show ?thesis by (intro conjI status_docPaid update_docEdited f)
qed

section \<open>The tax split\<close>

text \<open>
  Claim C7, as stated, fails. For a tax of 0.25 under CGST_SGST the two halves are
  stored as 0.13 each: they are rounded to two decimals and are not
  \<open>totalTaxAmount / 2 = 0.125\<close>.
\<close>

theorem tax_split_counterexample:
  "createInvoice env0 [] requestH = (Inr docH, [docH])
   \<and> taxType docH = ''CGST_SGST''
   \<and> totalTaxAmount docH = Fin (1 / 4)
   \<and> cgst docH = Fin (13 / 100) \<and> sgst docH = Fin (13 / 100)
   \<and> jdivc (totalTaxAmount docH) 2 = Fin (1 / 8)
   \<and> cgst docH \<noteq> jdivc (totalTaxAmount docH) 2"
proof -
  have f: "taxType docH = ''CGST_SGST''" "totalTaxAmount docH = Fin (1 / 4)"
    "cgst docH = Fin (13 / 100)" "sgst docH = Fin (13 / 100)"
    "jdivc (totalTaxAmount docH) 2 = Fin (1 / 8)"
    "cgst docH \<noteq> jdivc (totalTaxAmount docH) 2"
    by (simp_all add: docH_def docA_def)
  show ?thesis by (intro conjI create_docH f)
qed

text \<open>
  Claim C7, amended. On every computed invoice one regime is populated and the other is
  zero, each part being rounded to two decimals: under \<open>CGST_SGST\<close>,
  \<open>cgst = sgst = round2 (t / 2)\<close> and \<open>igst = 0\<close>; otherwise \<open>igst = round2 t\<close> and
  \<open>cgst = sgst = 0\<close>. Here \<open>t\<close> is the tax total that the computing code holds. For a
  created invoice the stored \<open>totalTaxAmount\<close> is the sum of the tax amounts of the
  lines and \<open>t\<close> is that total rounded to two decimals, unless all three parts came out
  zero on a positive total, in which case the pre-save hook computes them again with
  \<open>t\<close> the total itself. For the recalculation of an update \<open>t\<close> is the sum of the tax
  amounts of the lines and the stored \<open>totalTaxAmount\<close> is that sum rounded to two
  decimals. For any save of a document whose three parts are zero and whose total is
  positive, \<open>t\<close> is the stored total.
\<close>

theorem tax_split_in_code_order:
  "(createInvoice e st req = (Inr doc, st') \<longrightarrow>
      totalTaxAmount doc = taxSum (lineItems doc)
      \<and> (if jgt (totalTaxAmount doc) (Fin 0)
             \<and> zeroSplit (round2 (totalTaxAmount doc)) (taxType doc)
          then splitOf (totalTaxAmount doc) doc
          else splitOf (round2 (totalTaxAmount doc)) doc))
   \<and> (updateInvoice st i ow body = (Inr doc, st') \<and> upd_lineItems body \<noteq> None \<longrightarrow>
        totalTaxAmount doc = round2 (taxSum (lineItems doc))
        \<and> splitOf (taxSum (lineItems doc)) doc)
   \<and> (igst d = Fin 0 \<and> cgst d = Fin 0 \<and> sgst d = Fin 0
        \<and> jgt (totalTaxAmount (preSave d)) (Fin 0) \<longrightarrow>
        splitOf (totalTaxAmount (preSave d)) (preSave d))"
proof (intro conjI impI)
  assume "createInvoice e st req = (Inr doc, st')"
  from createInvoice_Inr [OF this] obtain cust n items where
    doc: "doc = preSave (buildInvoice e req cust n items)" by blast
  show "totalTaxAmount doc = taxSum (lineItems doc)"
    unfolding doc by (rule created_tax_total)
  show "if jgt (totalTaxAmount doc) (Fin 0)
           \<and> zeroSplit (round2 (totalTaxAmount doc)) (taxType doc)
        then splitOf (totalTaxAmount doc) doc
        else splitOf (round2 (totalTaxAmount doc)) doc"
    unfolding doc by (rule created_split)
next
  assume u: "updateInvoice st i ow body = (Inr doc, st') \<and> upd_lineItems body \<noteq> None"
  with updated_split [of st i ow body doc st']
  show "totalTaxAmount doc = round2 (taxSum (lineItems doc))"
    and "splitOf (taxSum (lineItems doc)) doc" by simp_all
next
  assume "igst d = Fin 0 \<and> cgst d = Fin 0 \<and> sgst d = Fin 0
            \<and> jgt (totalTaxAmount (preSave d)) (Fin 0)"
  then show "splitOf (totalTaxAmount (preSave d)) (preSave d)"
    by (intro preSave_split) simp_all
qed

text \<open>
  The created document of the split request: a tax of 0.25, halves of 0.13. Document A
  with its line sent again under \<open>CGST_SGST\<close>: a tax of 54, halves of 27. Document A
  with its breakdown cleared and saved: the hook sets \<open>igst\<close> to the total again.
\<close>

theorem tax_split_in_code_order_witness:
  "createInvoice env0 [] requestH = (Inr docH, [docH])
   \<and> taxType docH = ''CGST_SGST''
   \<and> totalTaxAmount docH = taxSum (lineItems docH)
   \<and> \<not> zeroSplit (round2 (totalTaxAmount docH)) (taxType docH)
   \<and> cgst docH = round2 (jdivc (round2 (totalTaxAmount docH)) 2)
   \<and> sgst docH = round2 (jdivc (round2 (totalTaxAmount docH)) 2)
   \<and> igst docH = Fin 0
   \<and> updateInvoice [docA] 1 1 (bodyA\<lparr> upd_taxType := Some ''CGST_SGST'' \<rparr>)
       = (Inr docSplit, [docSplit])
   \<and> upd_lineItems (bodyA\<lparr> upd_taxType := Some ''CGST_SGST'' \<rparr>) \<noteq> None
   \<and> taxType docSplit = ''CGST_SGST''
   \<and> totalTaxAmount docSplit = round2 (taxSum (lineItems docSplit))
   \<and> cgst docSplit = round2 (jdivc (taxSum (lineItems docSplit)) 2)
   \<and> sgst docSplit = round2 (jdivc (taxSum (lineItems docSplit)) 2)
   \<and> igst docSplit = Fin 0
   \<and> igst (docA\<lparr> igst := Fin 0 \<rparr>) = Fin 0 \<and> cgst (docA\<lparr> igst := Fin 0 \<rparr>) = Fin 0
   \<and> sgst (docA\<lparr> igst := Fin 0 \<rparr>) = Fin 0
   \<and> jgt (totalTaxAmount (preSave (docA\<lparr> igst := Fin 0 \<rparr>))) (Fin 0)
   \<and> taxType (preSave (docA\<lparr> igst := Fin 0 \<rparr>)) \<noteq> ''CGST_SGST''
   \<and> igst (preSave (docA\<lparr> igst := Fin 0 \<rparr>))
       = round2 (totalTaxAmount (preSave (docA\<lparr> igst := Fin 0 \<rparr>)))
   \<and> cgst (preSave (docA\<lparr> igst := Fin 0 \<rparr>)) = Fin 0
   \<and> sgst (preSave (docA\<lparr> igst := Fin 0 \<rparr>)) = Fin 0"
proof -
  let ?b = "bodyA\<lparr> upd_taxType := Some ''CGST_SGST'' \<rparr>"
  let ?z = "docA\<lparr> igst := Fin 0 \<rparr>"
  have tH: "taxType docH = ''CGST_SGST''" by (simp add: docH_def)
  have nz: "\<not> zeroSplit (round2 (totalTaxAmount docH)) (taxType docH)"
    by (simp add: zeroSplit_def docH_def round2_Fin)
  note created = tax_split_in_code_order [of env0 "[]" requestH docH "[docH]",
      THEN conjunct1, THEN mp, OF create_docH]
  from created have sumH: "totalTaxAmount docH = taxSum (lineItems docH)" by (rule conjunct1)
  from created [THEN conjunct2] nz have "splitOf (round2 (totalTaxAmount docH)) docH" by simp
  with tH have a: "cgst docH = round2 (jdivc (round2 (totalTaxAmount docH)) 2)"
    "sgst docH = round2 (jdivc (round2 (totalTaxAmount docH)) 2)" "igst docH = Fin 0"
    by (simp_all add: splitOf_def)
  have h: "upd_lineItems ?b \<noteq> None" by (simp add: bodyA_def)
  have tS: "taxType docSplit = ''CGST_SGST''" by (simp add: docSplit_def)
  note updated = tax_split_in_code_order [of _ "[docA]" _ docSplit "[docSplit]" 1 1 ?b,
      THEN conjunct2, THEN conjunct1, THEN mp, OF conjI, OF update_docSplit h]
  from updated have sumS: "totalTaxAmount docSplit = round2 (taxSum (lineItems docSplit))"
    by (rule conjunct1)
  from updated [THEN conjunct2] tS
  have b: "cgst docSplit = round2 (jdivc (taxSum (lineItems docSplit)) 2)"
    "sgst docSplit = round2 (jdivc (taxSum (lineItems docSplit)) 2)" "igst docSplit = Fin 0"
    by (simp_all add: splitOf_def)
  have z: "igst ?z = Fin 0" "cgst ?z = Fin 0" "sgst ?z = Fin 0" by (simp_all add: docA_def)
  have total: "totalTaxAmount (preSave ?z) = Fin 54"
    by (simp add: preSave_totalTaxAmount docA_def line_def numOr_def)
  have p: "jgt (totalTaxAmount (preSave ?z)) (Fin 0)" by (simp add: total jgt_def)
  have tZ: "taxType (preSave ?z) \<noteq> ''CGST_SGST''" by (simp add: docA_def)
  from tax_split_in_code_order [of _ _ _ _ _ _ _ _ ?z, THEN conjunct2, THEN conjunct2, THEN mp,
      OF conjI, OF z(1) conjI, OF z(2) conjI, OF z(3) p] tZ
  have c: "igst (preSave ?z) = round2 (totalTaxAmount (preSave ?z))"
    "cgst (preSave ?z) = Fin 0" "sgst (preSave ?z) = Fin 0"
    by (simp_all add: splitOf_def)
  show ?thesis by (intro conjI create_docH tH sumH nz a update_docSplit h tS sumS b z p tZ c)
qed

section \<open>Recomputing the tax breakdown\<close>

lemma hookTotals_breakdown [simp]:
  "igst (hookTotals d) = igst d" "cgst (hookTotals d) = cgst d" "sgst (hookTotals d) = sgst d"
  "taxType (hookTotals d) = taxType d"
  by (simp_all add: hookTotals_def Let_def)

lemma preSave_breakdown:
  "igst (preSave d) = igst (hookTaxBreakdown (hookTotals d))"
  "cgst (preSave d) = cgst (hookTaxBreakdown (hookTotals d))"
  "sgst (preSave d) = sgst (hookTaxBreakdown (hookTotals d))"
  "totalTaxAmount (preSave d) = totalTaxAmount (hookTotals d)"
  by (simp_all add: preSave_def hookTaxBreakdown_def)

lemma recalculate_breakdown:
  "igst (applySet d (recalculate body raw))
     = (if taxType (applySet d (recalculate body raw)) = ''CGST_SGST'' then Fin 0
        else round2 (foldl (\<lambda>sum item. jadd sum (taxAmount item)) (Fin 0)
               (map (updateLineItem (optNumber (upd_taxRate body))) raw)))"
  "cgst (applySet d (recalculate body raw))
     = (if taxType (applySet d (recalculate body raw)) = ''CGST_SGST''
        then round2 (jdivc (foldl (\<lambda>sum item. jadd sum (taxAmount item)) (Fin 0)
               (map (updateLineItem (optNumber (upd_taxRate body))) raw)) 2)
        else Fin 0)"
  "sgst (applySet d (recalculate body raw))
     = (if taxType (applySet d (recalculate body raw)) = ''CGST_SGST''
        then round2 (jdivc (foldl (\<lambda>sum item. jadd sum (taxAmount item)) (Fin 0)
               (map (updateLineItem (optNumber (upd_taxRate body))) raw)) 2)
        else Fin 0)"
  by (simp_all add: recalculate_def Let_def applySet_def orKeep_def)

text \<open>
  Claim C8, as stated, fails for the update. Document A carries \<open>igst = 54\<close>; the
  update that sends its line again under \<open>CGST_SGST\<close> overwrites the breakdown with
  \<open>igst = 0\<close>, \<open>cgst = sgst = 27\<close>. A breakdown supplied in the body beside the line
  items (\<open>igst: 10\<close>) is overwritten as well.
\<close>

theorem breakdown_overwritten_counterexample:
  "igst docA = Fin 54
   \<and> updateInvoice [docA] 1 1 (bodyA\<lparr> upd_taxType := Some ''CGST_SGST'' \<rparr>)
       = (Inr docSplit, [docSplit])
   \<and> igst docSplit = Fin 0 \<and> cgst docSplit = Fin 27 \<and> sgst docSplit = Fin 27
   \<and> updateInvoice [docA] 1 1 (bodyA\<lparr> upd_igst := Some (Fin 10) \<rparr>) = (Inr docA, [docA])"
proof -
  have f: "igst docA = Fin 54" "igst docSplit = Fin 0" "cgst docSplit = Fin 27"
    "sgst docSplit = Fin 27"
    by (simp_all add: docSplit_def docA_def)
  have u: "updateInvoice [docA] 1 1 (bodyA\<lparr> upd_igst := Some (Fin 10) \<rparr>) = (Inr docA, [docA])"
    by (simp add: eval_update docA_def)
  show ?thesis by (intro conjI f update_docSplit u)
qed

text \<open>
  Claim C8, amended. A save leaves a breakdown with a non-zero part as it is: the
  pre-save hook changes \<open>igst\<close>, \<open>cgst\<close>, \<open>sgst\<close> only when all three are zero (and
  then only when the tax total is positive). The recalculation of the update handler
  always overwrites the three from the tax total of the new line items, whatever the
  stored document and the body carry for them.
\<close>

theorem breakdown_kept_on_save:
  "(igst doc \<noteq> Fin 0 \<or> cgst doc \<noteq> Fin 0 \<or> sgst doc \<noteq> Fin 0 \<longrightarrow>
      igst (preSave doc) = igst doc \<and> cgst (preSave doc) = cgst doc
      \<and> sgst (preSave doc) = sgst doc)
   \<and> (igst (preSave doc) \<noteq> igst doc \<or> cgst (preSave doc) \<noteq> cgst doc
       \<or> sgst (preSave doc) \<noteq> sgst doc \<longrightarrow>
      igst doc = Fin 0 \<and> cgst doc = Fin 0 \<and> sgst doc = Fin 0
      \<and> jgt (totalTaxAmount (preSave doc)) (Fin 0))
   \<and> (updateInvoice store i ow body = (Inr doc', store') \<and> upd_lineItems body = Some raw \<longrightarrow>
      igst doc' = (if taxType doc' = ''CGST_SGST'' then Fin 0
                   else round2 (foldl (\<lambda>sum item. jadd sum (taxAmount item)) (Fin 0)
                          (map (updateLineItem (optNumber (upd_taxRate body))) raw)))
      \<and> cgst doc' = (if taxType doc' = ''CGST_SGST''
                     then round2 (jdivc (foldl (\<lambda>sum item. jadd sum (taxAmount item)) (Fin 0)
                            (map (updateLineItem (optNumber (upd_taxRate body))) raw)) 2)
                     else Fin 0)
      \<and> sgst doc' = cgst doc')"
proof (intro conjI impI)
  assume "igst doc \<noteq> Fin 0 \<or> cgst doc \<noteq> Fin 0 \<or> sgst doc \<noteq> Fin 0"
  then show "igst (preSave doc) = igst doc" "cgst (preSave doc) = cgst doc"
    "sgst (preSave doc) = sgst doc"
    by (auto simp: preSave_breakdown hookTaxBreakdown_def)
next
  assume ch: "igst (preSave doc) \<noteq> igst doc \<or> cgst (preSave doc) \<noteq> cgst doc
       \<or> sgst (preSave doc) \<noteq> sgst doc"
  then show "igst doc = Fin 0" "cgst doc = Fin 0" "sgst doc = Fin 0"
    "jgt (totalTaxAmount (preSave doc)) (Fin 0)"
    by (auto simp: preSave_breakdown hookTaxBreakdown_def split: if_splits)
next
  assume "updateInvoice store i ow body = (Inr doc', store') \<and> upd_lineItems body = Some raw"
  then have u: "updateInvoice store i ow body = (Inr doc', store')"
    and raw: "upd_lineItems body = Some raw" by simp_all
  from updateInvoice_Inr [OF u] obtain d v where
    "prepareUpdate body = Inr v" and "doc' = applySet d v" by blast
  with prepareUpdate_Some [OF raw] have doc': "doc' = applySet d (recalculate body raw)" by simp
  show "igst doc' = (if taxType doc' = ''CGST_SGST'' then Fin 0
                   else round2 (foldl (\<lambda>sum item. jadd sum (taxAmount item)) (Fin 0)
                          (map (updateLineItem (optNumber (upd_taxRate body))) raw)))"
    unfolding doc' by (rule recalculate_breakdown)
  show "cgst doc' = (if taxType doc' = ''CGST_SGST''
                     then round2 (jdivc (foldl (\<lambda>sum item. jadd sum (taxAmount item)) (Fin 0)
                            (map (updateLineItem (optNumber (upd_taxRate body))) raw)) 2)
                     else Fin 0)"
    unfolding doc' by (rule recalculate_breakdown)
  show "sgst doc' = cgst doc'"
    unfolding doc' by (simp add: recalculate_breakdown)
qed

text \<open>
  Document A keeps its breakdown on a save; with \<open>igst\<close> reset to zero the save
  recomputes it; the update under \<open>CGST_SGST\<close> writes both halves.
\<close>

theorem breakdown_kept_on_save_witness:
  "igst docA \<noteq> Fin 0
   \<and> igst (preSave docA) = Fin 54 \<and> cgst (preSave docA) = Fin 0 \<and> sgst (preSave docA) = Fin 0
   \<and> igst (preSave (docA\<lparr> igst := Fin 0 \<rparr>)) \<noteq> igst (docA\<lparr> igst := Fin 0 \<rparr>)
   \<and> jgt (totalTaxAmount (preSave (docA\<lparr> igst := Fin 0 \<rparr>))) (Fin 0)
   \<and> updateInvoice [docA] 1 1 (bodyA\<lparr> upd_taxType := Some ''CGST_SGST'' \<rparr>)
       = (Inr docSplit, [docSplit])
   \<and> upd_lineItems (bodyA\<lparr> upd_taxType := Some ''CGST_SGST'' \<rparr>)
       = Some [rawItem (Num (Fin 3)) (Num (Fin 100)) (Num (Fin 18))]
   \<and> sgst docSplit = cgst docSplit"
proof -
  let ?z = "docA\<lparr> igst := Fin 0 \<rparr>"
  let ?b = "bodyA\<lparr> upd_taxType := Some ''CGST_SGST'' \<rparr>"
  have h1: "igst docA \<noteq> Fin 0" and v: "igst docA = Fin 54" "cgst docA = Fin 0" "sgst docA = Fin 0"
    by (simp_all add: docA_def)
  from breakdown_kept_on_save [of docA] h1 v
  have k: "igst (preSave docA) = Fin 54" "cgst (preSave docA) = Fin 0" "sgst (preSave docA) = Fin 0"
    by simp_all
  have h2: "igst (preSave ?z) \<noteq> igst ?z"
    by (simp add: docA_def line_def preSave_breakdown hookTaxBreakdown_def hookTotals_def Let_def
          numOr_def jgt_def round2_Fin)
  from breakdown_kept_on_save [of ?z] h2
  have p: "jgt (totalTaxAmount (preSave ?z)) (Fin 0)" by blast
  have h3: "upd_lineItems ?b = Some [rawItem (Num (Fin 3)) (Num (Fin 100)) (Num (Fin 18))]"
    by (simp add: bodyA_def)
  from breakdown_kept_on_save [of _ "[docA]" 1 1 ?b docSplit "[docSplit]"
      "[rawItem (Num (Fin 3)) (Num (Fin 100)) (Num (Fin 18))]"] update_docSplit h3
  have s: "sgst docSplit = cgst docSplit" by blast
  show ?thesis by (intro conjI h1 k h2 p update_docSplit h3 s)
qed

section \<open>Defaults and amounts that are numbers\<close>

lemma create_docD: "createInvoice env0 [] requestD = (Inr docD, [docD])"
  by (simp add: eval_create requestD_def docD_def docA_def)

lemma create_docInf: "createInvoice env0 [] requestInf = (Inr docInf, [docInf])"
  by (simp add: eval_create requestInf_def docInf_def docA_def)

lemma isFinite_not_NaN: "isFinite a \<Longrightarrow> \<not> isNaN a"
  by (cases a) simp_all

lemma isFinite_safeNumber:
  "finiteValue v \<Longrightarrow> isFinite d \<Longrightarrow> isFinite (safeNumber v d)"
  by (cases "toNumber v") (auto simp: safeNumber_def finiteValue_def Let_def)

lemma finiteValue_withDefault: "finiteValue v \<Longrightarrow> finiteValue (withDefault v (Num (Fin c)))"
  by (simp add: withDefault_def finiteValue_def)

lemma isFinite_numOr_zero: "isFinite x \<Longrightarrow> isFinite (numOr x (Fin 0))"
  by (simp add: numOr_def)

lemma isNaN_safeNumber: "\<not> isNaN d \<Longrightarrow> \<not> isNaN (safeNumber v d)"
  by (simp add: safeNumber_def Let_def)

lemma isNaN_jadd_finite: "isFinite c \<Longrightarrow> isNaN (jadd x c) = isNaN x"
  by (cases x; cases c) simp_all

lemma isNaN_jsub_finite: "isFinite c \<Longrightarrow> isNaN (jsub x c) = isNaN x"
  by (cases x; cases c) (simp_all add: jsub_def)

lemma isNaN_jdivc [simp]: "isNaN (jdivc x c) = isNaN x"
  by (cases x) simp_all

lemma blank_safeNumber: "blank v \<Longrightarrow> safeNumber v d = d"
  by (auto simp: blank_def safeNumber_def)

lemma not_blank_safeNumber: "\<not> blank v \<Longrightarrow> safeNumber v d = toNumber v"
  by (auto simp: blank_def safeNumber_def)

lemma processLineItem_coerced: "coercedLine rate raw (processLineItem rate raw)"
proof -
  have "safeNumber (jsor (jsor (raw_taxRate raw) (raw_gstRate raw)) rate) (Fin 18)
          = (if truthy (raw_taxRate raw) \<or> truthy (raw_gstRate raw) \<or> blank rate
             then Fin 18 else toNumber rate)"
    if b: "blank (raw_taxRate raw)" "blank (raw_gstRate raw)"
  proof (cases "truthy (raw_taxRate raw)")
    case True
    with b show ?thesis by (simp add: jsor_def blank_safeNumber)
  next
    case t: False
    show ?thesis
    proof (cases "truthy (raw_gstRate raw)")
      case True
      with t b show ?thesis by (simp add: jsor_def blank_safeNumber)
    next
      case False
      with t show ?thesis
        by (cases "blank rate") (simp_all add: jsor_def blank_safeNumber not_blank_safeNumber)
    qed
  qed
  moreover have "safeNumber v d = (if blank v then d else toNumber v)" for v d
    by (simp add: blank_safeNumber not_blank_safeNumber)
  ultimately show ?thesis
    by (simp add: coercedLine_def processLineItem_inputs)
qed

lemma processLineItem_noNaN: "lineNoNaN (processLineItem rate raw)"
  by (simp add: lineNoNaN_def processLineItem_def Let_def isNaN_safeNumber)

lemma handler_total_sum:
  "foldl (\<lambda>sum item. jadd sum (safeNumber (Num (lineTotal item)) (Fin 0))) (Fin 0) (map (processLineItem r) items)
   = foldl (\<lambda>sum item. jadd sum (lineTotal item)) (Fin 0) (map (processLineItem r) items)"
  by (rule foldl_cong_set) (auto simp: safeNumber_Num processLineItem_fields)

lemma hook_total_sum:
  "foldl (\<lambda>sum item. jadd sum (numOr (lineTotal item) (Fin 0))) (Fin 0) (map (processLineItem r) items)
   = foldl (\<lambda>sum item. jadd sum (lineTotal item)) (Fin 0) (map (processLineItem r) items)"
  by (rule foldl_cong_set) (auto simp: numOr_zero_id processLineItem_fields)

lemma hookTaxBreakdown_noNaN:
  assumes "\<not> isNaN (totalTaxAmount d)"
    and "\<not> isNaN (igst d)" and "\<not> isNaN (cgst d)" and "\<not> isNaN (sgst d)"
  shows "\<not> isNaN (igst (hookTaxBreakdown d))" and "\<not> isNaN (cgst (hookTaxBreakdown d))"
    and "\<not> isNaN (sgst (hookTaxBreakdown d))"
  using assms by (simp_all add: hookTaxBreakdown_def)

lemma hookTaxBreakdown_amounts [simp]:
  "subtotal (hookTaxBreakdown d) = subtotal d"
  "totalTaxAmount (hookTaxBreakdown d) = totalTaxAmount d"
  "finalAmount (hookTaxBreakdown d) = finalAmount d"
  "balanceAmount (hookTaxBreakdown d) = balanceAmount d"
  "paidAmount (hookTaxBreakdown d) = paidAmount d"
  "taxRate (hookTaxBreakdown d) = taxRate d"
  "discountAmount (hookTaxBreakdown d) = discountAmount d"
  "transportCharges (hookTaxBreakdown d) = transportCharges d"
  "otherCharges (hookTaxBreakdown d) = otherCharges d"
  "roundingAdjustment (hookTaxBreakdown d) = roundingAdjustment d"
  by (simp_all add: hookTaxBreakdown_def)

lemma hookPaymentStatus_fields [simp]:
  "subtotal (hookPaymentStatus d) = subtotal d"
  "finalAmount (hookPaymentStatus d) = finalAmount d"
  "taxRate (hookPaymentStatus d) = taxRate d"
  "discountAmount (hookPaymentStatus d) = discountAmount d"
  "transportCharges (hookPaymentStatus d) = transportCharges d"
  "otherCharges (hookPaymentStatus d) = otherCharges d"
  "roundingAdjustment (hookPaymentStatus d) = roundingAdjustment d"
  by (simp_all add: hookPaymentStatus_def)

text \<open>
  The amounts of a built document, and of the document the hook makes of it, over the
  sums \<open>S\<close> of the line totals and \<open>T\<close> of the tax amounts.
\<close>

lemma created_noNaN:
  assumes crit: "criticalNaN (buildInvoice e req cust n items) = None"
    and fin: "finiteCharges req"
  shows "monetaryNoNaN (preSave (buildInvoice e req cust n items))"
proof -
  let ?b = "buildInvoice e req cust n items"
  let ?P = "map (processLineItem (withDefault (req_taxRate req) (Num (Fin 18)))) items"
  let ?S = "foldl (\<lambda>sum item. jadd sum (lineTotal item)) (Fin 0) ?P"
  let ?T = "taxSum ?P"
  let ?D = "safeNumber (withDefault (req_discountAmount req) (Num (Fin 0))) (Fin 0)"
  let ?Tr = "safeNumber (withDefault (req_transportCharges req) (Num (Fin 0))) (Fin 0)"
  let ?O = "safeNumber (withDefault (req_otherCharges req) (Num (Fin 0))) (Fin 0)"
  let ?R = "safeNumber (withDefault (req_roundingAdjustment req) (Num (Fin 0))) (Fin 0)"
  let ?f0 = "jadd (jadd (jadd (jsub (jadd ?S ?T) ?D) ?Tr) ?O) ?R"
  let ?h = "hookTotals ?b"
  from fin have ch: "isFinite ?D" "isFinite ?Tr" "isFinite ?O" "isFinite ?R"
    by (simp_all add: finiteCharges_def finiteValue_withDefault isFinite_safeNumber)
  have built: "lineItems ?b = ?P" "subtotal ?b = round2 ?S" "totalTaxAmount ?b = round2 ?T"
    "finalAmount ?b = round2 (if isNaN ?f0 then jadd ?S ?T else ?f0)"
    "discountAmount ?b = ?D" "transportCharges ?b = ?Tr" "otherCharges ?b = ?O"
    "roundingAdjustment ?b = ?R" "paidAmount ?b = Fin 0"
    by (simp_all add: buildInvoice_def Let_def handler_tax_sum handler_total_sum)
  have parts: "\<not> isNaN (igst ?b)" "\<not> isNaN (cgst ?b)" "\<not> isNaN (sgst ?b)"
    if "\<not> isNaN ?T"
    using that by (simp_all add: buildInvoice_def Let_def handler_tax_sum)
  have rate: "\<not> isNaN (taxRate ?b)"
    by (simp add: buildInvoice_def Let_def isNaN_safeNumber)
  from crit have "\<not> isNaN (finalAmount ?b)" "\<not> isNaN (subtotal ?b)"
    "\<not> isNaN (totalTaxAmount ?b)"
    by (simp_all add: criticalNaN_def split: if_splits)
  then have S: "\<not> isNaN ?S" and T: "\<not> isNaN ?T"
    and F: "\<not> isNaN (if isNaN ?f0 then jadd ?S ?T else ?f0)"
    by (simp_all add: built)
  have f0: "isNaN ?f0 = isNaN (jadd ?S ?T)"
    by (simp add: isNaN_jadd_finite isNaN_jsub_finite ch)
  from F f0 have ST: "\<not> isNaN (jadd ?S ?T)" by (simp split: if_splits)
  have hook: "subtotal ?h = ?S" "totalTaxAmount ?h = ?T"
    "finalAmount ?h = jadd (jadd (jadd (jsub (jadd ?S ?T) (numOr ?D (Fin 0))) (numOr ?Tr (Fin 0)))
        (numOr ?O (Fin 0))) (numOr ?R (Fin 0))"
    "balanceAmount ?h = jsub (finalAmount ?h) (Fin 0)"
    "igst ?h = igst ?b" "cgst ?h = cgst ?b" "sgst ?h = sgst ?b" "taxRate ?h = taxRate ?b"
    "paidAmount ?h = Fin 0" "discountAmount ?h = ?D" "transportCharges ?h = ?Tr"
    "otherCharges ?h = ?O" "roundingAdjustment ?h = ?R" "lineItems ?h = ?P"
    by (simp_all add: hookTotals_def Let_def built hook_tax_sum hook_total_sum numOr_zero_id)
  have hf: "\<not> isNaN (finalAmount ?h)"
    by (simp add: hook(3) isNaN_jadd_finite isNaN_jsub_finite isFinite_numOr_zero ch ST)
  then have hb: "\<not> isNaN (balanceAmount ?h)"
    by (simp add: hook(4) isNaN_jsub_finite)
  have hT: "\<not> isNaN (totalTaxAmount ?h)" by (simp add: hook(2) T)
  have hp: "\<not> isNaN (igst ?h)" "\<not> isNaN (cgst ?h)" "\<not> isNaN (sgst ?h)"
    by (simp_all add: hook parts [OF T])
  note bd = hookTaxBreakdown_noNaN [OF hT hp]
  have lines: "list_all lineNoNaN ?P"
    by (simp add: list_all_iff processLineItem_noNaN)
  have saved: "subtotal (preSave ?b) = ?S" "totalTaxAmount (preSave ?b) = ?T"
    "discountAmount (preSave ?b) = ?D" "transportCharges (preSave ?b) = ?Tr"
    "otherCharges (preSave ?b) = ?O" "roundingAdjustment (preSave ?b) = ?R"
    "finalAmount (preSave ?b) = finalAmount ?h" "paidAmount (preSave ?b) = Fin 0"
    "balanceAmount (preSave ?b) = balanceAmount ?h"
    "igst (preSave ?b) = igst (hookTaxBreakdown ?h)"
    "cgst (preSave ?b) = cgst (hookTaxBreakdown ?h)"
    "sgst (preSave ?b) = sgst (hookTaxBreakdown ?h)"
    "taxRate (preSave ?b) = taxRate ?b"
    by (simp_all add: preSave_def hook(1,2,8-14))
  have savedLines: "lineItems (preSave ?b) = ?P" by (simp add: built(1))
  show ?thesis
    unfolding monetaryNoNaN_def saved savedLines
    by (intro conjI S T hf hb bd rate lines isFinite_not_NaN ch) simp
qed

lemma preSave_inputs [simp]:
  "discountAmount (preSave d) = discountAmount d"
  "transportCharges (preSave d) = transportCharges d" "otherCharges (preSave d) = otherCharges d"
  "roundingAdjustment (preSave d) = roundingAdjustment d"
  by (simp_all add: preSave_def hookPaymentStatus_def hookTaxBreakdown_def hookTotals_def Let_def)

lemma buildInvoice_inputs:
  "lineItems (buildInvoice e req cust n items)
     = map (processLineItem (withDefault (req_taxRate req) (Num (Fin 18)))) items"
  "discountAmount (buildInvoice e req cust n items)
     = safeNumber (withDefault (req_discountAmount req) (Num (Fin 0))) (Fin 0)"
  "transportCharges (buildInvoice e req cust n items)
     = safeNumber (withDefault (req_transportCharges req) (Num (Fin 0))) (Fin 0)"
  "otherCharges (buildInvoice e req cust n items)
     = safeNumber (withDefault (req_otherCharges req) (Num (Fin 0))) (Fin 0)"
  "roundingAdjustment (buildInvoice e req cust n items)
     = safeNumber (withDefault (req_roundingAdjustment req) (Num (Fin 0))) (Fin 0)"
  by (simp_all add: buildInvoice_def Let_def)

text \<open>
  Claim C6, as stated, fails. A request that leaves the tax rate and every charge out
  and gives the quantity \<open>1e999\<close> is stored with the final amount \<open>Infinity\<close>: the
  handler guards against NaN only.
\<close>

theorem infinite_amount_counterexample:
  "raw_taxRate (rawItem (Num PInf) (Num (Fin 1)) Undefined) = Undefined
   \<and> req_discountAmount requestInf = Undefined
   \<and> createInvoice env0 [] requestInf = (Inr docInf, [docInf])
   \<and> finalAmount docInf = PInf
   \<and> \<not> isFinite (finalAmount docInf)"
proof -
  have f: "raw_taxRate (rawItem (Num PInf) (Num (Fin 1)) Undefined) = Undefined"
    "req_discountAmount requestInf = Undefined"
    "finalAmount docInf = PInf" "\<not> isFinite (finalAmount docInf)"
    by (simp_all add: rawItem_def requestInf_def request_def docInf_def)
  show ?thesis by (intro conjI f create_docInf)
qed

text \<open>
  Claim C6, amended. On every stored invoice a quantity, unit price or charge that was
  missing, null, empty or not numeric has its default (1 for the quantity, 0 for the
  unit price and for every charge) and any other is the number sent; a line tax rate
  that was so, with its alias \<open>gstRate\<close>, is 18 when one of the two is text that is no
  numeral, and otherwise the invoice-level rate, or 18 when that is missing, null,
  empty or not numeric too. When no charge of the request is an infinity, no monetary
  field of the stored invoice and of its lines is NaN.
\<close>

theorem defaults_and_no_nan:
  assumes "createInvoice e store req = (Inr doc, store')"
  shows "(\<exists>items. req_lineItems req = Some items
            \<and> list_all2 (coercedLine (withDefault (req_taxRate req) (Num (Fin 18)))) items
                 (lineItems doc))
     \<and> coercedCharges req doc
     \<and> (finiteCharges req \<longrightarrow> monetaryNoNaN doc)"
proof -
  from createInvoice_Inr [OF assms] obtain cust n items where
    items: "req_lineItems req = Some items"
    and doc: "doc = preSave (buildInvoice e req cust n items)"
    and crit: "criticalNaN (buildInvoice e req cust n items) = None" by blast
  have "list_all2 (coercedLine (withDefault (req_taxRate req) (Num (Fin 18)))) items
          (lineItems doc)"
    by (simp add: doc buildInvoice_inputs list_all2_map2 list_all2_same processLineItem_coerced)
  moreover have charge: "safeNumber (withDefault v (Num (Fin 0))) (Fin 0)
      = (if blank v then Fin 0 else toNumber v)" for v
    by (auto simp: blank_def safeNumber_def withDefault_def)
  have "coercedCharges req doc"
    by (simp add: coercedCharges_def doc buildInvoice_inputs charge)
  moreover have "monetaryNoNaN doc" if "finiteCharges req"
    unfolding doc using crit that by (rule created_noNaN)
  ultimately show ?thesis using items by blast
qed

text \<open>
  The request without a quantity: the line gets quantity 1 and the unit price sent, the
  absent discount is 0 and no amount is NaN. The request with the quantity \<open>1e999\<close> and
  no line rate: the line gets the rate 18, and its amounts are infinite but not NaN.
\<close>

theorem defaults_and_no_nan_witness:
  "createInvoice env0 [] requestD = (Inr docD, [docD])
   \<and> finiteCharges requestD
   \<and> blank (raw_quantity (rawItem Undefined (Num (Fin 50)) (Num (Fin 18))))
   \<and> \<not> blank (raw_unitPrice (rawItem Undefined (Num (Fin 50)) (Num (Fin 18))))
   \<and> blank (req_discountAmount requestD)
   \<and> lineItems docD = [line (Fin 1) (Fin 50) (Fin 18) (Fin 50) (Fin 9) (Fin 59)]
   \<and> coercedLine (Num (Fin 18)) (rawItem Undefined (Num (Fin 50)) (Num (Fin 18)))
        (line (Fin 1) (Fin 50) (Fin 18) (Fin 50) (Fin 9) (Fin 59))
   \<and> quantity (line (Fin 1) (Fin 50) (Fin 18) (Fin 50) (Fin 9) (Fin 59)) = Fin 1
   \<and> unitPrice (line (Fin 1) (Fin 50) (Fin 18) (Fin 50) (Fin 9) (Fin 59)) = Fin 50
   \<and> discountAmount docD = Fin 0
   \<and> monetaryNoNaN docD
   \<and> createInvoice env0 [] requestInf = (Inr docInf, [docInf])
   \<and> finiteCharges requestInf
   \<and> blank (raw_taxRate (rawItem (Num PInf) (Num (Fin 1)) Undefined))
   \<and> blank (raw_gstRate (rawItem (Num PInf) (Num (Fin 1)) Undefined))
   \<and> coercedLine (Num (Fin 18)) (rawItem (Num PInf) (Num (Fin 1)) Undefined)
        (line PInf (Fin 1) (Fin 18) PInf PInf PInf)
   \<and> itemTaxRate (line PInf (Fin 1) (Fin 18) PInf PInf PInf) = Fin 18
   \<and> monetaryNoNaN docInf"
proof -
  let ?rawD = "rawItem Undefined (Num (Fin 50)) (Num (Fin 18))"
  let ?lineD = "line (Fin 1) (Fin 50) (Fin 18) (Fin 50) (Fin 9) (Fin 59)"
  let ?rawI = "rawItem (Num PInf) (Num (Fin 1)) Undefined"
  let ?lineI = "line PInf (Fin 1) (Fin 18) PInf PInf PInf"
  have fin: "finiteCharges requestD" "finiteCharges requestInf"
    by (simp_all add: finiteCharges_def requestD_def requestInf_def request_def finiteValue_def)
  have b: "blank (raw_quantity ?rawD)" "\<not> blank (raw_unitPrice ?rawD)"
    "blank (req_discountAmount requestD)"
    "blank (raw_taxRate ?rawI)" "blank (raw_gstRate ?rawI)"
    by (simp_all add: blank_def rawItem_def requestD_def request_def)
  have l: "lineItems docD = [?lineD]" "lineItems docInf = [?lineI]"
    by (simp_all add: docD_def docInf_def)
  have r: "req_lineItems requestD = Some [?rawD]"
    "withDefault (req_taxRate requestD) (Num (Fin 18)) = Num (Fin 18)"
    "req_lineItems requestInf = Some [?rawI]"
    "withDefault (req_taxRate requestInf) (Num (Fin 18)) = Num (Fin 18)"
    by (simp_all add: requestD_def requestInf_def request_def withDefault_def)
  note tD = defaults_and_no_nan [OF create_docD]
  note tI = defaults_and_no_nan [OF create_docInf]
  from tD r l have cD: "coercedLine (Num (Fin 18)) ?rawD ?lineD" by simp
  from tI r l have cI: "coercedLine (Num (Fin 18)) ?rawI ?lineI" by simp
  from cD b have q: "quantity ?lineD = Fin 1" "unitPrice ?lineD = Fin 50"
    by (simp_all add: coercedLine_def rawItem_def)
  from cI b have t: "itemTaxRate ?lineI = Fin 18"
    by (simp add: coercedLine_def rawItem_def blank_def)
  from tD b have d: "discountAmount docD = Fin 0" by (simp add: coercedCharges_def)
  from tD fin have mD: "monetaryNoNaN docD" by blast
  from tI fin have mI: "monetaryNoNaN docInf" by blast
  show ?thesis
    by (intro conjI create_docD fin(1) b(1) b(2) b(3) l(1) cD q d mD create_docInf fin(2)
          b(4) b(5) cI t mI)
qed

end
